theory Spec2Isabelle
  imports Main "HOL-Library.Word"
begin

unbundle bit_operations_syntax

section \<open>Bytes, buffers and text encodings\<close>

text \<open>
  A Node \<open>Buffer\<close> is a list of bytes. The helpers below are the Buffer and string
  operations that the claim tool calls: \<open>Buffer.alloc\<close>, \<open>subarray\<close>/\<open>slice\<close>,
  \<open>copy\<close>, \<open>Buffer.from(s, 'hex')\<close>, \<open>toString('base64')\<close>, \<open>startsWith\<close>,
  \<open>String.replace\<close> with the three regular expressions of the source, and
  \<open>split('/').pop()\<close>.
\<close>

type_synonym byte = "8 word"
type_synonym bytes = "byte list"

definition Buffer_alloc :: "nat \<Rightarrow> bytes" where
  "Buffer_alloc n = replicate n 0"

text \<open>\<open>buf.subarray(start, end)\<close> and \<open>slice(start, end)\<close> for indices that are not
  negative; both clamp to the length of the buffer.\<close>

definition subarray :: "bytes \<Rightarrow> nat \<Rightarrow> nat \<Rightarrow> bytes" where
  "subarray buf start fin = take (fin - start) (drop start buf)"

definition subarray_from :: "bytes \<Rightarrow> nat \<Rightarrow> bytes" where
  "subarray_from buf start = drop start buf"

text \<open>\<open>src.copy(target, targetStart, sourceStart, sourceEnd)\<close>: the copied range is cut to
  what the target can hold; the updated target is returned.\<close>

definition Buffer_copy :: "bytes \<Rightarrow> bytes \<Rightarrow> nat \<Rightarrow> nat \<Rightarrow> nat \<Rightarrow> bytes" where
  "Buffer_copy src target targetStart sourceStart sourceEnd =
     (let chunk = take (length target - targetStart) (subarray src sourceStart sourceEnd)
      in take targetStart target @ chunk @ drop (targetStart + length chunk) target)"

definition startsWith :: "string \<Rightarrow> string \<Rightarrow> bool" where
  "startsWith s p = (take (length p) s = p)"

text \<open>The source's idiom \<open>s.startsWith('0x') ? s.slice(2) : s\<close>.\<close>

definition strip_0x :: "string \<Rightarrow> string" where
  "strip_0x s = (if startsWith s ''0x'' then drop 2 s else s)"

definition hex_val :: "char \<Rightarrow> nat option" where
  "hex_val c =
     (let n = (of_char c :: nat) in
      if 48 \<le> n \<and> n \<le> 57 then Some (n - 48)
      else if 97 \<le> n \<and> n \<le> 102 then Some (n - 87)
      else if 65 \<le> n \<and> n \<le> 70 then Some (n - 55)
      else None)"

text \<open>\<open>Buffer.from(s, 'hex')\<close>: pairs of hex digits are decoded until the first pair that
  is not hex; a trailing single character is dropped.\<close>

fun Buffer_from_hex :: "string \<Rightarrow> bytes" where
  "Buffer_from_hex (a # b # rest) =
     (case hex_val a of
        None \<Rightarrow> []
      | Some x \<Rightarrow>
          (case hex_val b of
             None \<Rightarrow> []
           | Some y \<Rightarrow> of_nat (16 * x + y) # Buffer_from_hex rest))"
| "Buffer_from_hex _ = []"

definition hex_digit :: "nat \<Rightarrow> char" where
  "hex_digit n = ''0123456789abcdef'' ! n"

definition toString_hex :: "bytes \<Rightarrow> string" where
  "toString_hex bs = concat (map (\<lambda>b. [hex_digit (unat b div 16), hex_digit (unat b mod 16)]) bs)"

text \<open>\<open>ethers.hexlify\<close> of a byte string: \<open>0x\<close> and the lower-case hex digits.\<close>

definition hexlify :: "bytes \<Rightarrow> string" where
  "hexlify bs = ''0x'' @ toString_hex bs"

definition b64_char :: "nat \<Rightarrow> char" where
  "b64_char n = ''ABCDEFGHIJKLMNOPQRSTUVWXYZabcdefghijklmnopqrstuvwxyz0123456789+/'' ! n"

text \<open>\<open>buf.toString('base64')\<close>: the standard alphabet, padded with \<open>=\<close>.\<close>

fun toString_base64 :: "bytes \<Rightarrow> string" where
  "toString_base64 (a # b # c # rest) =
     (let n = unat a * 65536 + unat b * 256 + unat c
      in [b64_char (n div 262144), b64_char (n div 4096 mod 64),
          b64_char (n div 64 mod 64), b64_char (n mod 64)] @ toString_base64 rest)"
| "toString_base64 [a, b] =
     (let n = unat a * 65536 + unat b * 256
      in [b64_char (n div 262144), b64_char (n div 4096 mod 64),
          b64_char (n div 64 mod 64), CHR ''='']) "
| "toString_base64 [a] =
     (let n = unat a * 65536
      in [b64_char (n div 262144), b64_char (n div 4096 mod 64), CHR ''='', CHR ''=''])"
| "toString_base64 [] = []"

text \<open>\<open>s.replace(/\+/g, '-').replace(/\//g, '_').replace(/=/g, '')\<close>.\<close>

definition to_base64url :: "string \<Rightarrow> string" where
  "to_base64url s =
     filter (\<lambda>c. c \<noteq> CHR ''='')
       (map (\<lambda>c. if c = CHR ''/'' then CHR ''_'' else c)
          (map (\<lambda>c. if c = CHR ''+'' then CHR ''-'' else c) s))"

text \<open>\<open>s.replace(/^0+/, '')\<close>: the leading run of the character \<open>0\<close> is removed.\<close>

definition strip_leading_zeros :: "string \<Rightarrow> string" where
  "strip_leading_zeros s = dropWhile (\<lambda>c. c = CHR ''0'') s"

text \<open>\<open>s.split('/')\<close>, with the segment being read kept in an accumulator; the result is
  never empty, so \<open>pop()\<close> is the last segment.\<close>

fun split_slash :: "string \<Rightarrow> string \<Rightarrow> string list" where
  "split_slash acc [] = [acc]"
| "split_slash acc (c # cs) =
     (if c = CHR ''/'' then acc # split_slash [] cs else split_slash (acc @ [c]) cs)"

definition split_pop :: "string \<Rightarrow> string" where
  "split_pop s = last (split_slash [] s)"

section \<open>External collaborators\<close>

text \<open>
  The cryptographic primitives come from Node's \<open>crypto\<close> module and are parameters of
  the model. \<open>ecdh_computeSecret priv pub\<close> is \<open>createECDH('secp256k1')\<close> with
  \<open>setPrivateKey\<close> and \<open>computeSecret\<close> (\<open>None\<close> when either throws);
  \<open>aes_256_gcm_open key nonce ciphertext tag\<close> is the \<open>update\<close>/\<open>final\<close> pair of a
  decipher (\<open>None\<close> when \<open>final\<close> throws because the tag does not verify);
  \<open>aes_256_gcm_seal key nonce plaintext\<close> is the matching cipher, returning ciphertext
  and tag. Every call made is recorded, in order, with its arguments.
\<close>

record crypto_api =
  ecdh_computeSecret :: "bytes \<Rightarrow> bytes \<Rightarrow> bytes option"
  sha256 :: "bytes \<Rightarrow> bytes"
  hmac_sha256 :: "bytes \<Rightarrow> bytes \<Rightarrow> bytes"
  aes_256_gcm_open :: "bytes \<Rightarrow> bytes \<Rightarrow> bytes \<Rightarrow> bytes \<Rightarrow> bytes option"
  aes_256_gcm_seal :: "bytes \<Rightarrow> bytes \<Rightarrow> bytes \<Rightarrow> bytes \<times> bytes"

datatype call =
    ContractInheritances string
  | ContractFetchArweaveTransactionId string
  | ConsoleLog string
  | KeyServerGet string string
  | ArweaveTxGet string
  | ArweaveDataGet string
  | EcdhComputeSecret bytes bytes
  | Sha256 bytes
  | HmacSha256 bytes bytes
  | AesGcmDecrypt bytes bytes bytes bytes
  | WriteFile string bytes

datatype error =
    MissingParameters
  | InvalidPrivateKeyLength nat
  | EncryptedKeyTooShort nat nat
  | EcdhFailed
  | InvalidKeyLength
  | AuthenticationFailed
  | EncryptedDataTooShort
  | ContractReadFailed
  | NotInClaimableState
  | KeyServerUnreachable
  | KeyServerStatus nat
  | KeyServerMessage string
  | KeyServerHttpError nat
  | KeyNotReturned
  | ArweaveAllFormatsFailed
  | FileWriteFailed

section \<open>Cryptographic utilities\<close>

text \<open>
  \<open>hkdf(ikm, salt, info, length)\<close>. The loop
  \<open>for (let i = 1; i <= Math.ceil(length / 32); i++)\<close> carries \<open>t\<close>, \<open>offset\<close> and
  \<open>okm\<close>; \<open>Buffer.from([i])\<close> keeps the low eight bits of \<open>i\<close>.
\<close>

function hkdf_expand ::
  "crypto_api \<Rightarrow> bytes \<Rightarrow> bytes \<Rightarrow> nat \<Rightarrow> nat \<Rightarrow> bytes \<Rightarrow> nat \<Rightarrow> bytes \<Rightarrow> call list
     \<Rightarrow> call list \<times> bytes" where
  "hkdf_expand cr prk info len i t offset okm cs =
     (if i \<le> (len + 31) div 32 then
        (let data = t @ info @ [of_nat i];
             t' = hmac_sha256 cr prk data;
             okm' = Buffer_copy t' okm offset 0 (min 32 (len - offset))
         in hkdf_expand cr prk info len (i + 1) t' (offset + 32) okm' (cs @ [HmacSha256 prk data]))
      else (cs, okm))"
  by pat_completeness auto
termination
  by (relation "measure (\<lambda>(cr, prk, info, len, i, t, offset, okm, cs). (len + 31) div 32 + 1 - i)") auto

declare hkdf_expand.simps [simp del]

definition hkdf :: "crypto_api \<Rightarrow> bytes \<Rightarrow> bytes \<Rightarrow> bytes \<Rightarrow> nat \<Rightarrow> call list \<times> bytes" where
  "hkdf cr ikm salt info len =
     (let prk = hmac_sha256 cr salt ikm
      in hkdf_expand cr prk info len 1 [] 0 (Buffer_alloc len) [HmacSha256 salt ikm])"

text \<open>
  \<open>crypto.createDecipheriv('aes-256-gcm', key, nonce)\<close>, \<open>setAuthTag(tag)\<close>,
  \<open>update(ciphertext)\<close> and \<open>final()\<close>: a key that is not 32 bytes long is refused when
  the decipher is created, a tag that does not verify when it is finalised.
\<close>

definition aes_256_gcm_decipher ::
  "crypto_api \<Rightarrow> bytes \<Rightarrow> bytes \<Rightarrow> bytes \<Rightarrow> bytes \<Rightarrow> call list \<times> (error + bytes)" where
  "aes_256_gcm_decipher cr key nonce ciphertext tag =
     (if length key \<noteq> 32 then ([], Inl InvalidKeyLength)
      else
        ([AesGcmDecrypt key nonce ciphertext tag],
         (case aes_256_gcm_open cr key nonce ciphertext tag of
            None \<Rightarrow> Inl AuthenticationFailed
          | Some decrypted \<Rightarrow> Inr decrypted)))"

section \<open>Decryption functions\<close>

definition key_derivation_info :: bytes where
  "key_derivation_info = map of_char ''app.inheritor.key-derivation-info''"

text \<open>
  \<open>decryptSymmetricKey(encryptedSymmetricKey, privateKey)\<close>, both arguments strings of
  hex digits. The empty string is the only string that JavaScript treats as false.
\<close>

definition decryptSymmetricKey ::
  "crypto_api \<Rightarrow> string \<Rightarrow> string \<Rightarrow> call list \<times> (error + bytes)" where
  "decryptSymmetricKey cr encryptedSymmetricKey privateKey =
     (if encryptedSymmetricKey = [] \<or> privateKey = [] then ([], Inl MissingParameters)
      else
        let privateKeyBuffer = Buffer_from_hex (strip_0x privateKey) in
        if length privateKeyBuffer \<noteq> 32
        then ([], Inl (InvalidPrivateKeyLength (length privateKeyBuffer)))
        else
          let encryptedKeyBuffer = Buffer_from_hex (strip_0x encryptedSymmetricKey);
              minimumLength = 65 + 32 + 12 + 32 + 16 in
          if length encryptedKeyBuffer < minimumLength
          then ([], Inl (EncryptedKeyTooShort (length encryptedKeyBuffer) minimumLength))
          else
            let ephemeralPublicKey = subarray encryptedKeyBuffer 0 65;
                salt = subarray encryptedKeyBuffer 65 97;
                nonce = subarray encryptedKeyBuffer 97 109;
                ciphertext = subarray encryptedKeyBuffer 109 (length encryptedKeyBuffer - 16);
                tag = subarray_from encryptedKeyBuffer (length encryptedKeyBuffer - 16)
            in
              (case ecdh_computeSecret cr privateKeyBuffer ephemeralPublicKey of
                 None \<Rightarrow> ([EcdhComputeSecret privateKeyBuffer ephemeralPublicKey], Inl EcdhFailed)
               | Some rawSharedPoint \<Rightarrow>
                   let x = (if length rawSharedPoint > 32 then subarray rawSharedPoint 0 32
                            else rawSharedPoint);
                       compressedPoint =
                         Buffer_copy x ((Buffer_alloc 33)[0 := 2]) 1 0 (length x);
                       sharedSecret = sha256 cr compressedPoint;
                       (hcalls, encryptionKey) = hkdf cr sharedSecret salt key_derivation_info 32;
                       (dcalls, decrypted) =
                         aes_256_gcm_decipher cr encryptionKey nonce ciphertext tag
                   in ([EcdhComputeSecret privateKeyBuffer ephemeralPublicKey,
                        Sha256 compressedPoint] @ hcalls @ dcalls, decrypted)))"

text \<open>
  \<open>decryptAsset(encryptedData, symmetricKey)\<close>, both arguments Buffers. A Buffer is an
  object and so never false: the guard \<open>!encryptedData || !symmetricKey\<close> cannot fire on
  this type. The subtraction \<open>encryptedData.length - 16\<close> is evaluated after the length
  check only.
\<close>

definition decryptAsset :: "crypto_api \<Rightarrow> bytes \<Rightarrow> bytes \<Rightarrow> call list \<times> (error + bytes)" where
  "decryptAsset cr encryptedData symmetricKey =
     (if length encryptedData < 12 + 1 + 16 then ([], Inl EncryptedDataTooShort)
      else
        let nonce = subarray encryptedData 0 12;
            tag = subarray_from encryptedData (length encryptedData - 16);
            ciphertext = subarray encryptedData 12 (length encryptedData - 16)
        in aes_256_gcm_decipher cr symmetricKey nonce ciphertext tag)"

section \<open>Contract, key server and Arweave\<close>

text \<open>
  The contract's view function \<open>inheritances(bytes32)\<close> returns the record below; the
  field \<open>state\<close> is a \<open>uint8\<close>. The world the tool talks to is a record of
  functions: a contract read or an HTTP request that throws is \<open>None\<close>. The direct
  contract method \<open>fetchArweaveTransactionId\<close> is not part of the ABI the tool declares,
  so the call may throw and the source falls back to the record.
\<close>

record inheritance =
  testatorEOA :: string
  testatorSAA :: string
  beneficiaryEOA :: string
  beneficiarySAA :: string
  gracePeriod :: nat
  state :: "8 word"
  arweaveTransactionId :: bytes
  scheduledTransferTime :: nat

record beneficiary_keys =
  address :: string
  privateKey :: string
  publicKey :: string

text \<open>What \<open>axios.get\<close> on the key server can do: throw without a response, throw with
  the response of a status outside 2xx (whose body may carry a \<open>message\<close>), or return a
  response of a 2xx status whose body may carry \<open>encryptedSymmetricKey\<close>.\<close>

datatype key_response =
    NoResponse
  | ErrorResponse nat "string option"
  | Response nat "string option"

record tx_response =
  tx_status :: nat
  tx_tags :: "(string \<times> string) list option"

record data_response =
  data_status :: nat
  data_body :: bytes

record world =
  crypto :: crypto_api
  contract_inheritances :: "string \<Rightarrow> inheritance option"
  contract_fetchArweaveTransactionId :: "string \<Rightarrow> bytes option"
  keyserver_get :: "string \<Rightarrow> string \<Rightarrow> key_response"
  arweave_tx_get :: "string \<Rightarrow> tx_response option"
  arweave_data_get :: "string \<Rightarrow> data_response option"
  base64url_to_utf8 :: "string \<Rightarrow> string"
  fs_writeFileSync :: "string \<Rightarrow> bytes \<Rightarrow> bool"

text \<open>Sequencing of two steps: the second runs only when the first returned a value, and
  the calls of both are kept in order.\<close>

definition and_then ::
  "call list \<times> (error + 'a) \<Rightarrow> ('a \<Rightarrow> call list \<times> (error + 'b)) \<Rightarrow> call list \<times> (error + 'b)" where
  "and_then m f =
     (case m of
        (cs, Inl e) \<Rightarrow> (cs, Inl e)
      | (cs, Inr a) \<Rightarrow> (case f a of (cs', r) \<Rightarrow> (cs @ cs', r)))"

definition after :: "call list \<Rightarrow> call list \<times> 'a \<Rightarrow> call list \<times> 'a" where
  "after cs m = (case m of (cs', r) \<Rightarrow> (cs @ cs', r))"

definition STATE_NAMES :: "nat \<rightharpoonup> string" where
  "STATE_NAMES =
     map_of [(0, ''Designated''), (1, ''Claimable''), (2, ''Claimed''), (3, ''Revoked''),
             (4, ''Purged'')]"

fun show_nat :: "nat \<Rightarrow> string" where
  "show_nat n =
     (if n < 10 then [''0123456789'' ! n] else show_nat (n div 10) @ [''0123456789'' ! (n mod 10)])"

declare show_nat.simps [simp del]

text \<open>The template \<open>`Inheritance state: ${STATE_NAMES[state]} (${state})`\<close>; a state
  without a name prints as \<open>undefined\<close>.\<close>

definition state_line :: "nat \<Rightarrow> string" where
  "state_line st =
     ''Inheritance state: '' @ (case STATE_NAMES st of None \<Rightarrow> ''undefined'' | Some n \<Rightarrow> n)
       @ '' ('' @ show_nat st @ '')''"

text \<open>
  \<open>isInheritanceClaimable(contract, inheritanceId)\<close>. Of the console output of the tool
  only the line that names the state is part of the model.
\<close>

definition isInheritanceClaimable :: "world \<Rightarrow> string \<Rightarrow> call list \<times> (error + bool)" where
  "isInheritanceClaimable w inheritanceId =
     (case contract_inheritances w inheritanceId of
        None \<Rightarrow> ([ContractInheritances inheritanceId], Inl ContractReadFailed)
      | Some inh \<Rightarrow>
          let st = unat (state inh)
          in ([ContractInheritances inheritanceId, ConsoleLog (state_line st)], Inr (st = 1)))"

definition fetchArweaveTransactionId :: "world \<Rightarrow> string \<Rightarrow> call list \<times> (error + string)" where
  "fetchArweaveTransactionId w inheritanceId =
     (case contract_fetchArweaveTransactionId w inheritanceId of
        Some txid \<Rightarrow> ([ContractFetchArweaveTransactionId inheritanceId], Inr (hexlify txid))
      | None \<Rightarrow>
          after [ContractFetchArweaveTransactionId inheritanceId, ContractInheritances inheritanceId]
            (case contract_inheritances w inheritanceId of
               None \<Rightarrow> ([], Inl ContractReadFailed)
             | Some inh \<Rightarrow> ([], Inr (hexlify (arweaveTransactionId inh)))))"

definition retrieveEncryptedSymmetricKey ::
  "world \<Rightarrow> string \<Rightarrow> string \<Rightarrow> call list \<times> (error + string)" where
  "retrieveEncryptedSymmetricKey w inheritanceId network =
     after [KeyServerGet inheritanceId network]
       (case keyserver_get w inheritanceId network of
          NoResponse \<Rightarrow> ([], Inl KeyServerUnreachable)
        | ErrorResponse status message \<Rightarrow>
            (case message of
               None \<Rightarrow> ([], Inl (KeyServerHttpError status))
             | Some m \<Rightarrow>
                 if m = [] then ([], Inl (KeyServerHttpError status))
                 else ([], Inl (KeyServerMessage m)))
        | Response status key \<Rightarrow>
            if status \<noteq> 200 then ([], Inl (KeyServerStatus status))
            else
              (case key of
                 None \<Rightarrow> ([], Inl KeyNotReturned)
               | Some k \<Rightarrow> if k = [] then ([], Inl KeyNotReturned) else ([], Inr k)))"

text \<open>The loop over the tags of a transaction: the first tag whose decoded name is
  \<open>Content-Type\<close> decides, and \<open>contentType.split('/').pop() || 'bin'\<close> is its extension.\<close>

fun fileExtension_of_tags :: "(string \<Rightarrow> string) \<Rightarrow> (string \<times> string) list \<Rightarrow> string" where
  "fileExtension_of_tags dec [] = ''bin''"
| "fileExtension_of_tags dec ((name, val) # tags) =
     (if dec name = ''Content-Type''
      then (let contentType = dec val; ext = split_pop contentType
            in if ext = [] then ''bin'' else ext)
      else fileExtension_of_tags dec tags)"

text \<open>The loop \<open>for (const id of possibleIds)\<close>: a request that throws and a status
  other than 200 both go on to the next id.\<close>

fun try_possibleIds :: "world \<Rightarrow> string list \<Rightarrow> call list \<times> (error + bytes \<times> string)" where
  "try_possibleIds w [] = ([], Inl ArweaveAllFormatsFailed)"
| "try_possibleIds w (id' # ids) =
     (case arweave_tx_get w id' of
        None \<Rightarrow> after [ArweaveTxGet id'] (try_possibleIds w ids)
      | Some transactionResponse \<Rightarrow>
          if tx_status transactionResponse \<noteq> 200
          then after [ArweaveTxGet id'] (try_possibleIds w ids)
          else
            let tags = (case tx_tags transactionResponse of None \<Rightarrow> [] | Some ts \<Rightarrow> ts);
                fileExtension = fileExtension_of_tags (base64url_to_utf8 w) tags
            in
              (case arweave_data_get w id' of
                 None \<Rightarrow> after [ArweaveTxGet id', ArweaveDataGet id'] (try_possibleIds w ids)
               | Some dataResponse \<Rightarrow>
                   if data_status dataResponse \<noteq> 200
                   then after [ArweaveTxGet id', ArweaveDataGet id'] (try_possibleIds w ids)
                   else ([ArweaveTxGet id', ArweaveDataGet id'],
                         Inr (data_body dataResponse, fileExtension))))"

definition possibleIds :: "string \<Rightarrow> string list" where
  "possibleIds transactionId =
     (let cleanHexId = strip_0x transactionId;
          bytes = Buffer_from_hex cleanHexId;
          base64 = toString_base64 bytes;
          base64url = to_base64url base64
      in [cleanHexId, base64url, strip_leading_zeros cleanHexId])"

definition retrieveAssetFromArweave ::
  "world \<Rightarrow> string \<Rightarrow> call list \<times> (error + bytes \<times> string)" where
  "retrieveAssetFromArweave w transactionId = try_possibleIds w (possibleIds transactionId)"

definition saveFile :: "world \<Rightarrow> bytes \<Rightarrow> string \<Rightarrow> string \<Rightarrow> call list \<times> (error + unit)" where
  "saveFile w data inheritanceId fileExtension =
     (let shortId = take 8 inheritanceId;
          filename = ''inheritance_'' @ shortId @ ''.'' @ fileExtension
      in ([WriteFile filename data],
          if fs_writeFileSync w filename data then Inr () else Inl FileWriteFailed))"

section \<open>Core claim process\<close>

definition claimInheritance ::
  "world \<Rightarrow> string \<Rightarrow> beneficiary_keys \<Rightarrow> string \<Rightarrow> call list \<times> (error + unit)" where
  "claimInheritance w inheritanceId beneficiaryKeys networkName =
     and_then (isInheritanceClaimable w inheritanceId) (\<lambda>claimable.
       if \<not> claimable then ([], Inl NotInClaimableState)
       else
         and_then (fetchArweaveTransactionId w inheritanceId) (\<lambda>arweaveTransactionId.
         and_then (retrieveEncryptedSymmetricKey w inheritanceId networkName) (\<lambda>encryptedSymmetricKey.
         let privateKeyWithout0x = strip_0x (privateKey beneficiaryKeys) in
         and_then (decryptSymmetricKey (crypto w) encryptedSymmetricKey privateKeyWithout0x) (\<lambda>symmetricKey.
         and_then (retrieveAssetFromArweave w arweaveTransactionId) (\<lambda>(encryptedAsset, fileExtension).
         and_then (decryptAsset (crypto w) encryptedAsset symmetricKey) (\<lambda>decryptedAsset.
         saveFile w decryptedAsset inheritanceId fileExtension))))))"

section \<open>The published key derivation\<close>

text \<open>
  The derivation as the scheme describes it, for comparison with the code: RFC 5869 with
  HMAC-SHA-256, whose output is the first \<open>L\<close> bytes of \<open>T(1) || T(2) || ...\<close> with
  \<open>T(n) = HMAC(PRK, T(n-1) || info || n)\<close> and \<open>PRK = HMAC(salt, IKM)\<close>; the input keying
  material is the SHA-256 hash of the marker byte 0x02 followed by the X coordinate.
\<close>

fun hkdf_T :: "crypto_api \<Rightarrow> bytes \<Rightarrow> bytes \<Rightarrow> nat \<Rightarrow> bytes" where
  "hkdf_T cr prk info 0 = []"
| "hkdf_T cr prk info (Suc n) =
     hmac_sha256 cr prk (hkdf_T cr prk info n @ info @ [of_nat (Suc n)])"

definition rfc5869_hkdf :: "crypto_api \<Rightarrow> bytes \<Rightarrow> bytes \<Rightarrow> bytes \<Rightarrow> nat \<Rightarrow> bytes" where
  "rfc5869_hkdf cr salt ikm info L =
     (let prk = hmac_sha256 cr salt ikm
      in take L (concat (map (hkdf_T cr prk info) [1 ..< Suc ((L + 31) div 32)])))"

definition spec_encryption_key :: "crypto_api \<Rightarrow> bytes \<Rightarrow> bytes \<Rightarrow> bytes" where
  "spec_encryption_key cr X salt =
     rfc5869_hkdf cr salt (sha256 cr (2 # X)) key_derivation_info 32"

section \<open>The encrypting side of an asset\<close>

text \<open>
  The tool only decrypts. For the round trip, the blob that the encrypting side stores is
  the nonce, the ciphertext and the 16-byte tag in this order, as \<open>decryptAsset\<close>
  expects them. What is assumed of AES-256-GCM at a given key, nonce and plaintext: the
  ciphertext is as long as the plaintext, the tag has 16 bytes, the decipher returns the
  plaintext for what the cipher produced, and it refuses the result when one bit of the
  ciphertext or of the tag has been flipped.
\<close>

definition asset_blob :: "crypto_api \<Rightarrow> bytes \<Rightarrow> bytes \<Rightarrow> bytes \<Rightarrow> bytes" where
  "asset_blob cr key nonce pt =
     (case aes_256_gcm_seal cr key nonce pt of (ct, tag) \<Rightarrow> nonce @ ct @ tag)"

text \<open>Bit \<open>i\<close> of a byte string is bit \<open>i mod 8\<close> of byte \<open>i div 8\<close>; a position past
  the end changes nothing.\<close>

definition flip_bit :: "nat \<Rightarrow> bytes \<Rightarrow> bytes" where
  "flip_bit i bs = bs[i div 8 := (bs ! (i div 8)) XOR push_bit (i mod 8) 1]"

definition gcm_opens_what_it_seals :: "crypto_api \<Rightarrow> bytes \<Rightarrow> bytes \<Rightarrow> bytes \<Rightarrow> bool" where
  "gcm_opens_what_it_seals cr key nonce pt =
     (case aes_256_gcm_seal cr key nonce pt of
        (ct, tag) \<Rightarrow>
          length ct = length pt \<and> length tag = 16
          \<and> aes_256_gcm_open cr key nonce ct tag = Some pt)"

definition gcm_rejects_flipped_bits :: "crypto_api \<Rightarrow> bytes \<Rightarrow> bytes \<Rightarrow> bytes \<Rightarrow> bool" where
  "gcm_rejects_flipped_bits cr key nonce pt =
     (case aes_256_gcm_seal cr key nonce pt of
        (ct, tag) \<Rightarrow>
          (\<forall>i \<in> set [0 ..< 8 * length ct].
              aes_256_gcm_open cr key nonce (flip_bit i ct) tag = None)
          \<and> (\<forall>i \<in> set [0 ..< 8 * length tag].
              aes_256_gcm_open cr key nonce ct (flip_bit i tag) = None))"

section \<open>Resolving a locator, as a specification\<close>

text \<open>
  For comparison with the loop: an identifier resolves when its metadata request and its
  download both answer with status 200, and it then yields the payload and the extension
  read from the metadata. Of a list of identifiers the first that resolves decides, the
  identifiers up to and including it are the ones attempted, and the metadata requests
  among the calls made are the probes.
\<close>

definition resolves :: "world \<Rightarrow> string \<Rightarrow> (bytes \<times> string) option" where
  "resolves w i =
     (case arweave_tx_get w i of
        None \<Rightarrow> None
      | Some tr \<Rightarrow>
          (case arweave_data_get w i of
             None \<Rightarrow> None
           | Some dr \<Rightarrow>
               if tx_status tr = 200 \<and> data_status dr = 200
               then Some (data_body dr,
                          fileExtension_of_tags (base64url_to_utf8 w)
                            (case tx_tags tr of None \<Rightarrow> [] | Some ts \<Rightarrow> ts))
               else None))"

fun first_resolved :: "world \<Rightarrow> string list \<Rightarrow> (bytes \<times> string) option" where
  "first_resolved w [] = None"
| "first_resolved w (i # ids) =
     (case resolves w i of None \<Rightarrow> first_resolved w ids | Some r \<Rightarrow> Some r)"

fun attempted :: "world \<Rightarrow> string list \<Rightarrow> string list" where
  "attempted w [] = []"
| "attempted w (i # ids) = i # (case resolves w i of None \<Rightarrow> attempted w ids | Some r \<Rightarrow> [])"

fun tx_probes :: "call list \<Rightarrow> string list" where
  "tx_probes [] = []"
| "tx_probes (ArweaveTxGet i # cs) = i # tx_probes cs"
| "tx_probes (c # cs) = tx_probes cs"

text \<open>The part of a string after its last \<open>/\<close>, the whole string when it has none.\<close>

definition after_last_slash :: "string \<Rightarrow> string" where
  "after_last_slash s = rev (takeWhile (\<lambda>c. c \<noteq> CHR ''/'') (rev s))"

section \<open>A small world for running the functions\<close>

text \<open>
  Stand-ins for the primitives, simple enough to compute by hand: the shared point is the
  bytewise XOR of the private key with the public key after its first byte, the hash keeps
  the first 32 bytes of its zero-padded input, the MAC adds the sum of the data bytes to
  every byte of the key padded to 32 bytes, and the cipher adds one to every byte; its tag
  is the XOR of the first 16 key bytes with the first 16 bytes of the padded ciphertext.
\<close>

definition test_tag :: "bytes \<Rightarrow> bytes \<Rightarrow> bytes \<Rightarrow> bytes" where
  "test_tag key nonce ct =
     map (\<lambda>(a, b). a XOR b) (zip (take 16 key) (take 16 (ct @ replicate 16 0)))"

definition test_crypto :: crypto_api where
  "test_crypto =
     \<lparr> ecdh_computeSecret =
         (\<lambda>priv pub. if length pub = 65
                      then Some (map (\<lambda>(a, b). a XOR b) (zip priv (drop 1 pub))) else None),
       sha256 = (\<lambda>d. take 32 (d @ replicate 32 0)),
       hmac_sha256 = (\<lambda>k d. map (\<lambda>a. a + sum_list d) (take 32 (k @ replicate 32 0))),
       aes_256_gcm_open =
         (\<lambda>key nonce ct tag.
            if tag = test_tag key nonce ct then Some (map (\<lambda>b. b - 1) ct) else None),
       aes_256_gcm_seal =
         (\<lambda>key nonce pt. (map (\<lambda>b. b + 1) pt, test_tag key nonce (map (\<lambda>b. b + 1) pt))) \<rparr>"

text \<open>A private key, and key blobs of \<open>n\<close> bytes: public key, salt and nonce are zero
  bytes, ciphertext and tag are bytes 8 and 31, which is what the stand-in cipher makes of
  a plaintext of bytes 7 under the key derived for this private key.\<close>

definition test_priv :: bytes where
  "test_priv = replicate 32 1"

definition test_blob :: "nat \<Rightarrow> bytes" where
  "test_blob n = replicate 109 0 @ replicate (n - 125) 8 @ replicate 16 31"

text \<open>
  A world around the stand-in primitives. The contract knows one inheritance, in the given
  state and with the given beneficiary, whose locator is 32 bytes 0xab; the direct contract
  method is missing; the key server returns the test blob of 157 bytes; Arweave answers the
  metadata request for the hex form of the locator with status 200 and no tags but fails
  its download, and serves the base64url form with a \<open>Content-Type\<close> tag of
  \<open>image/png\<close>; the payload is the two bytes \<open>hi\<close> encrypted under the key of bytes 7.
\<close>

definition test_id :: string where
  "test_id = ''0x'' @ replicate 64 CHR ''0''"

definition test_keys :: "string \<Rightarrow> beneficiary_keys" where
  "test_keys a = \<lparr> address = a, privateKey = ''0x'' @ toString_hex test_priv, publicKey = [] \<rparr>"

definition test_locator :: bytes where
  "test_locator = replicate 32 171"

definition test_asset :: bytes where
  "test_asset = replicate 12 0 @ [105, 106] @ [110, 109] @ replicate 14 7"

definition test_decode :: "string \<Rightarrow> string" where
  "test_decode s =
     (if s = ''Q29udGVudC1UeXBl'' then ''Content-Type''
      else if s = ''aW1hZ2UvcG5n'' then ''image/png'' else s)"

definition test_inheritance :: "8 word \<Rightarrow> string \<Rightarrow> inheritance" where
  "test_inheritance st beneficiary =
     \<lparr> testatorEOA = ''0x1111111111111111111111111111111111111111'',
       testatorSAA = ''0x2222222222222222222222222222222222222222'',
       beneficiaryEOA = beneficiary,
       beneficiarySAA = ''0x3333333333333333333333333333333333333333'',
       gracePeriod = 0, state = st, arweaveTransactionId = test_locator,
       scheduledTransferTime = 0 \<rparr>"

definition test_world :: "8 word \<Rightarrow> string \<Rightarrow> world" where
  "test_world st beneficiary =
     \<lparr> crypto = test_crypto,
       contract_inheritances =
         (\<lambda>i. if i = test_id then Some (test_inheritance st beneficiary) else None),
       contract_fetchArweaveTransactionId = (\<lambda>i. None),
       keyserver_get = (\<lambda>i n. Response 200 (Some (toString_hex (test_blob 157)))),
       arweave_tx_get =
         (\<lambda>i. if i = toString_hex test_locator
              then Some \<lparr> tx_status = 200, tx_tags = None \<rparr>
              else if i = to_base64url (toString_base64 test_locator)
              then Some \<lparr> tx_status = 200,
                          tx_tags = Some [(''Q29udGVudC1UeXBl'', ''aW1hZ2UvcG5n'')] \<rparr>
              else None),
       arweave_data_get =
         (\<lambda>i. if i = to_base64url (toString_base64 test_locator)
              then Some \<lparr> data_status = 200, data_body = test_asset \<rparr>
              else None),
       base64url_to_utf8 = test_decode,
       fs_writeFileSync = (\<lambda>name data. True) \<rparr>"

section \<open>Hex strings\<close>

text \<open>Decoding the hex string of a byte list gives the byte list back, and such a string
  never starts with \<open>0x\<close>.\<close>

lemma hex_digits_all:
  "list_all (\<lambda>n. hex_val (hex_digit n) = Some n \<and> hex_digit n \<noteq> CHR ''x'') [0..<16]"
  by code_simp

lemma hex_val_hex_digit: "n < 16 \<Longrightarrow> hex_val (hex_digit n) = Some n"
  using hex_digits_all by (simp add: list_all_iff)

lemma hex_digit_not_x: "n < 16 \<Longrightarrow> hex_digit n \<noteq> CHR ''x''"
  using hex_digits_all by (simp add: list_all_iff)

lemma Buffer_from_hex_toString_hex: "Buffer_from_hex (toString_hex bs) = bs"
proof (induction bs)
  case Nil
  show ?case by (simp add: toString_hex_def)
next
  case (Cons b bs)
  have hi: "unat b div 16 < 16"
    using unsigned_less [of b, where ?'a = nat] by simp
  have "(of_nat (16 * (unat b div 16) + unat b mod 16) :: byte) = b"
    by simp
  with Cons hi show ?case
    by (simp add: toString_hex_def hex_val_hex_digit)
qed

lemma length_toString_hex: "length (toString_hex bs) = 2 * length bs"
  by (induction bs) (simp_all add: toString_hex_def)

lemma strip_0x_toString_hex: "strip_0x (toString_hex bs) = toString_hex bs"
proof (cases bs)
  case Nil
  then show ?thesis by (simp add: strip_0x_def startsWith_def toString_hex_def)
next
  case (Cons b bs')
  have "hex_digit (unat b mod 16) \<noteq> CHR ''x''" by (rule hex_digit_not_x) simp
  with Cons show ?thesis by (simp add: strip_0x_def startsWith_def toString_hex_def)
qed

lemma strip_0x_hexlify: "strip_0x (hexlify bs) = toString_hex bs"
  by (simp add: strip_0x_def startsWith_def hexlify_def)

lemma toString_hex_eq_Nil: "toString_hex bs = [] \<longleftrightarrow> bs = []"
  by (cases bs) (simp_all add: toString_hex_def)

section \<open>The length checks\<close>

text \<open>
  C9. \<open>decryptAsset\<close> rejects every blob shorter than 12 + 1 + 16 = 29 bytes. A blob of
  at least 29 bytes is cut into the nonce (its first 12 bytes), the tag (its last 16 bytes)
  and the ciphertext (the bytes between, at least one), and these three are what the
  decipher receives.
\<close>

theorem decryptAsset_split:
  "(length encryptedData < 29 \<longrightarrow>
      decryptAsset cr encryptedData symmetricKey = ([], Inl EncryptedDataTooShort))
   \<and> (29 \<le> length encryptedData \<longrightarrow>
        (let nonce = take 12 encryptedData;
             ciphertext = take (length encryptedData - 28) (drop 12 encryptedData);
             tag = drop (length encryptedData - 16) encryptedData
         in encryptedData = nonce @ ciphertext @ tag
            \<and> length nonce = 12 \<and> length tag = 16 \<and> length ciphertext = length encryptedData - 28
            \<and> ciphertext \<noteq> []
            \<and> decryptAsset cr encryptedData symmetricKey =
                aes_256_gcm_decipher cr symmetricKey nonce ciphertext tag))"
proof (intro conjI impI)
  assume "length encryptedData < 29"
  then show "decryptAsset cr encryptedData symmetricKey = ([], Inl EncryptedDataTooShort)"
    by (simp add: decryptAsset_def)
next
  assume len: "29 \<le> length encryptedData"
  have split: "take (length encryptedData - 28) (drop 12 encryptedData)
                 @ drop (length encryptedData - 16) encryptedData = drop 12 encryptedData"
  proof -
    have "drop (length encryptedData - 16) encryptedData
            = drop (length encryptedData - 28) (drop 12 encryptedData)"
      using len by simp
    then show ?thesis by (simp only: append_take_drop_id)
  qed
  show "let nonce = take 12 encryptedData;
             ciphertext = take (length encryptedData - 28) (drop 12 encryptedData);
             tag = drop (length encryptedData - 16) encryptedData
         in encryptedData = nonce @ ciphertext @ tag
            \<and> length nonce = 12 \<and> length tag = 16 \<and> length ciphertext = length encryptedData - 28
            \<and> ciphertext \<noteq> []
            \<and> decryptAsset cr encryptedData symmetricKey =
                aes_256_gcm_decipher cr symmetricKey nonce ciphertext tag"
    unfolding Let_def
  proof (intro conjI)
    show "encryptedData = take 12 encryptedData @ take (length encryptedData - 28) (drop 12 encryptedData) @ drop (length encryptedData - 16) encryptedData"
      using split by simp
    show "take (length encryptedData - 28) (drop 12 encryptedData) \<noteq> []" using len by auto
    show "decryptAsset cr encryptedData symmetricKey =
      aes_256_gcm_decipher cr symmetricKey (take 12 encryptedData)
       (take (length encryptedData - 28) (drop 12 encryptedData))
       (drop (length encryptedData - 16) encryptedData)"
      using len by (simp add: decryptAsset_def subarray_def subarray_from_def Let_def)
  qed (use len in auto)
qed

text \<open>C9 at a blob of 28 bytes and at a blob of 29 bytes.\<close>

theorem decryptAsset_split_witness:
  "length (replicate 28 (0::byte)) < 29
   \<and> decryptAsset test_crypto (replicate 28 0) (replicate 32 2) = ([], Inl EncryptedDataTooShort)
   \<and> 29 \<le> length (replicate 12 (0::byte) @ [5] @ 7 # replicate 15 2)
   \<and> decryptAsset test_crypto (replicate 12 0 @ [5] @ 7 # replicate 15 2) (replicate 32 2)
       = ([AesGcmDecrypt (replicate 32 2) (replicate 12 0) [5] (7 # replicate 15 2)], Inr [4])"
  using decryptAsset_split [of "replicate 28 0" test_crypto "replicate 32 2"]
        decryptAsset_split [of "replicate 12 0 @ [5] @ 7 # replicate 15 2" test_crypto "replicate 32 2"]
  by code_simp

text \<open>
  C1, as the code has it. For non-empty arguments and a private key of 32 bytes, the decoded
  blob is rejected as too short exactly when it has fewer than
  65 + 32 + 12 + 32 + 16 = 157 bytes, and no primitive has been called by then; from 157
  bytes on the length check passes and the first thing that happens is the key agreement
  on the first 65 bytes.
\<close>

theorem decryptSymmetricKey_minimum_length:
  assumes "encryptedSymmetricKey \<noteq> []" and "privKey \<noteq> []"
    and "length (Buffer_from_hex (strip_0x privKey)) = 32"
  shows "(length (Buffer_from_hex (strip_0x encryptedSymmetricKey)) < 157 \<longrightarrow>
            decryptSymmetricKey cr encryptedSymmetricKey privKey =
              ([], Inl (EncryptedKeyTooShort (length (Buffer_from_hex (strip_0x encryptedSymmetricKey))) 157)))
       \<and> (157 \<le> length (Buffer_from_hex (strip_0x encryptedSymmetricKey)) \<longrightarrow>
            hd (fst (decryptSymmetricKey cr encryptedSymmetricKey privKey)) =
              EcdhComputeSecret (Buffer_from_hex (strip_0x privKey))
                (take 65 (Buffer_from_hex (strip_0x encryptedSymmetricKey)))
            \<and> (\<forall>n m. snd (decryptSymmetricKey cr encryptedSymmetricKey privKey)
                       \<noteq> Inl (EncryptedKeyTooShort n m)))"
  using assms
  by (auto simp: decryptSymmetricKey_def Let_def subarray_def aes_256_gcm_decipher_def
           split: option.splits prod.splits if_splits)

text \<open>C1 at a blob of 100 bytes, which is rejected, and at a blob of 157 bytes, which is
  not.\<close>

theorem decryptSymmetricKey_minimum_length_witness:
  "toString_hex (replicate 100 0) \<noteq> [] \<and> toString_hex (replicate 32 1) \<noteq> []
   \<and> length (Buffer_from_hex (strip_0x (toString_hex (replicate 32 1)))) = 32
   \<and> length (Buffer_from_hex (strip_0x (toString_hex (replicate 100 0)))) < 157
   \<and> decryptSymmetricKey test_crypto (toString_hex (replicate 100 0)) (toString_hex (replicate 32 1))
        = ([], Inl (EncryptedKeyTooShort 100 157))
   \<and> 157 \<le> length (Buffer_from_hex (strip_0x (toString_hex (replicate 157 0))))
   \<and> hd (fst (decryptSymmetricKey test_crypto (toString_hex (replicate 157 0))
                 (toString_hex (replicate 32 1))))
        = EcdhComputeSecret (replicate 32 1) (replicate 65 0)"
  using decryptSymmetricKey_minimum_length
          [of "toString_hex (replicate 100 0)" "toString_hex (replicate 32 1)" test_crypto]
        decryptSymmetricKey_minimum_length
          [of "toString_hex (replicate 157 0)" "toString_hex (replicate 32 1)" test_crypto]
  by (simp add: strip_0x_toString_hex Buffer_from_hex_toString_hex toString_hex_eq_Nil)

text \<open>C1 as stated fails: a blob of 126 bytes, one ciphertext byte after the 125 bytes of
  fixed fields, does not pass the length check.\<close>

theorem blob_of_126_bytes_rejected:
  "decryptSymmetricKey test_crypto (toString_hex (replicate 126 0)) (toString_hex (replicate 32 1))
     = ([], Inl (EncryptedKeyTooShort 126 157))"
  by (simp add: decryptSymmetricKey_def strip_0x_toString_hex Buffer_from_hex_toString_hex
        toString_hex_eq_Nil)

section \<open>Key derivation\<close>

lemma Buffer_alloc_33: "(Buffer_alloc 33)[0 := b] = b # replicate 32 0"
proof -
  have "(33::nat) = Suc 32" by simp
  then show ?thesis by (simp only: Buffer_alloc_def replicate_Suc list_update_code)
qed

lemma compressedPoint_32:
  "length x = 32 \<Longrightarrow> Buffer_copy x ((Buffer_alloc 33)[0 := 2]) (Suc 0) 0 32 = 2 # x"
  by (simp add: Buffer_alloc_33 Buffer_copy_def subarray_def)

lemma hkdf_32:
  "hkdf cr ikm salt info 32 =
     (let prk = hmac_sha256 cr salt ikm; t = hmac_sha256 cr prk (info @ [1])
      in ([HmacSha256 salt ikm, HmacSha256 prk (info @ [1])],
          take 32 t @ replicate (32 - length t) 0))"
  by (simp add: hkdf_def hkdf_expand.simps [of _ _ _ 32] Let_def Buffer_copy_def subarray_def
        Buffer_alloc_def)

lemma rfc5869_hkdf_32:
  "length (hmac_sha256 cr (hmac_sha256 cr salt ikm) (info @ [1])) = 32 \<Longrightarrow>
   rfc5869_hkdf cr salt ikm info 32 = hmac_sha256 cr (hmac_sha256 cr salt ikm) (info @ [1])"
  by (simp add: rfc5869_hkdf_def Let_def)

lemma hkdf_32_rfc:
  "length (hmac_sha256 cr (hmac_sha256 cr salt ikm) (info @ [1])) = 32 \<Longrightarrow>
   hkdf cr ikm salt info 32 =
     ([HmacSha256 salt ikm, HmacSha256 (hmac_sha256 cr salt ikm) (info @ [1])],
      rfc5869_hkdf cr salt ikm info 32)"
  by (simp add: hkdf_32 rfc5869_hkdf_32 Let_def)

text \<open>What the function does once the checks have passed and the key agreement has
  returned 32 bytes.\<close>

lemma decryptSymmetricKey_run:
  assumes "enc \<noteq> []" and "privKey \<noteq> []"
    and "length (Buffer_from_hex (strip_0x privKey)) = 32"
    and "157 \<le> length (Buffer_from_hex (strip_0x enc))"
    and "ecdh_computeSecret cr (Buffer_from_hex (strip_0x privKey))
           (take 65 (Buffer_from_hex (strip_0x enc))) = Some X"
    and "length X = 32"
    and "\<forall>k d. length (hmac_sha256 cr k d) = 32"
  shows "decryptSymmetricKey cr enc privKey =
     (let blob = Buffer_from_hex (strip_0x enc);
          salt = take 32 (drop 65 blob);
          nonce = take 12 (drop 97 blob);
          ciphertext = take (length blob - 125) (drop 109 blob);
          tag = drop (length blob - 16) blob;
          ikm = sha256 cr (2 # X);
          K = spec_encryption_key cr X salt
      in ([EcdhComputeSecret (Buffer_from_hex (strip_0x privKey)) (take 65 blob),
           Sha256 (2 # X), HmacSha256 salt ikm,
           HmacSha256 (hmac_sha256 cr salt ikm) (key_derivation_info @ [1]),
           AesGcmDecrypt K nonce ciphertext tag],
          (case aes_256_gcm_open cr K nonce ciphertext tag of
             None \<Rightarrow> Inl AuthenticationFailed
           | Some decrypted \<Rightarrow> Inr decrypted)))"
proof -
  have K32: "length (rfc5869_hkdf cr salt (sha256 cr (2 # X)) key_derivation_info 32) = 32" for salt
    using assms(7) by (simp add: rfc5869_hkdf_32)
  show ?thesis
    using assms K32
    by (simp add: decryptSymmetricKey_def Let_def subarray_def subarray_from_def
          compressedPoint_32 hkdf_32_rfc aes_256_gcm_decipher_def spec_encryption_key_def)
qed
lemma hex_roundtrip: "Buffer_from_hex (strip_0x (toString_hex bs)) = bs"
  by (simp add: strip_0x_toString_hex Buffer_from_hex_toString_hex)

lemma sum_info: "sum_list (key_derivation_info @ [1]) = (246 :: byte)"
  by code_simp

lemma test_hmac_32: "\<forall>k d. length (hmac_sha256 test_crypto k d) = 32"
  by (auto simp: test_crypto_def)

lemma test_key_23:
  "rfc5869_hkdf test_crypto (replicate 32 0) (sha256 test_crypto (2 # replicate 32 1))
     key_derivation_info 32 = replicate 32 23"
proof -
  have "rfc5869_hkdf test_crypto (replicate 32 0) (sha256 test_crypto (2 # replicate 32 1))
     key_derivation_info 32
     = hmac_sha256 test_crypto
        (hmac_sha256 test_crypto (replicate 32 0) (sha256 test_crypto (2 # replicate 32 1)))
        (key_derivation_info @ [1])"
    using test_hmac_32 by (simp add: rfc5869_hkdf_32)
  also have "\<dots> = replicate 32 23"
    using sum_info by (simp add: test_crypto_def sum_list_replicate)
  finally show ?thesis .
qed

text \<open>
  C4. For a blob that passes the checks, with a key agreement that returns the 32-byte X
  coordinate and a MAC of 32 bytes, the calls made are the key agreement, SHA-256 of the 33
  bytes 0x02 || X, the two HMACs of the derivation and one AES-256-GCM decryption of the
  blob's ciphertext. The key of that decryption is HKDF-SHA-256 (RFC 5869) with the blob's
  salt, the SHA-256 output as input keying material, the fixed info string and length 32,
  which is HMAC(HMAC(salt, IKM), info || 0x01), and it is what the source's \<open>hkdf\<close>
  returns.
\<close>

theorem decryptSymmetricKey_key_derivation:
  assumes "enc \<noteq> []" and "privKey \<noteq> []"
    and "length (Buffer_from_hex (strip_0x privKey)) = 32"
    and "157 \<le> length (Buffer_from_hex (strip_0x enc))"
    and "ecdh_computeSecret cr (Buffer_from_hex (strip_0x privKey))
           (take 65 (Buffer_from_hex (strip_0x enc))) = Some X"
    and "length X = 32"
    and "\<forall>k d. length (hmac_sha256 cr k d) = 32"
  shows "let blob = Buffer_from_hex (strip_0x enc);
             salt = take 32 (drop 65 blob);
             nonce = take 12 (drop 97 blob);
             ciphertext = take (length blob - 125) (drop 109 blob);
             tag = drop (length blob - 16) blob;
             ikm = sha256 cr (2 # X);
             K = rfc5869_hkdf cr salt ikm key_derivation_info 32
         in fst (decryptSymmetricKey cr enc privKey) =
              [EcdhComputeSecret (Buffer_from_hex (strip_0x privKey)) (take 65 blob),
               Sha256 (2 # X), HmacSha256 salt ikm,
               HmacSha256 (hmac_sha256 cr salt ikm) (key_derivation_info @ [1]),
               AesGcmDecrypt K nonce ciphertext tag]
            \<and> K = hmac_sha256 cr (hmac_sha256 cr salt ikm) (key_derivation_info @ [1])
            \<and> K = snd (hkdf cr ikm salt key_derivation_info 32)
            \<and> length K = 32 \<and> length (2 # X) = 33"
  using assms
  by (simp add: decryptSymmetricKey_run Let_def spec_encryption_key_def rfc5869_hkdf_32
        hkdf_32_rfc)

text \<open>C4 on a blob of 157 bytes under the stand-in primitives.\<close>

theorem decryptSymmetricKey_key_derivation_witness:
  "toString_hex (test_blob 157) \<noteq> [] \<and> toString_hex test_priv \<noteq> []
   \<and> (\<forall>k d. length (hmac_sha256 test_crypto k d) = 32)
   \<and> fst (decryptSymmetricKey test_crypto (toString_hex (test_blob 157)) (toString_hex test_priv)) =
       [EcdhComputeSecret (replicate 32 1) (replicate 65 0),
        Sha256 (2 # replicate 32 1),
        HmacSha256 (replicate 32 0) (2 # replicate 31 1),
        HmacSha256 (replicate 32 33) (key_derivation_info @ [1]),
        AesGcmDecrypt (replicate 32 23) (replicate 12 0) (replicate 32 8) (replicate 16 31)]"
proof -
  have h1: "toString_hex (test_blob 157) \<noteq> []"
    by (simp add: toString_hex_eq_Nil test_blob_def)
  have h2: "toString_hex test_priv \<noteq> []"
    by (simp add: toString_hex_eq_Nil test_priv_def)
  have h3: "length (Buffer_from_hex (strip_0x (toString_hex test_priv))) = 32"
    by (simp add: hex_roundtrip test_priv_def)
  have h4: "157 \<le> length (Buffer_from_hex (strip_0x (toString_hex (test_blob 157))))"
    by (simp add: hex_roundtrip test_blob_def)
  have h5: "ecdh_computeSecret test_crypto (Buffer_from_hex (strip_0x (toString_hex test_priv)))
              (take 65 (Buffer_from_hex (strip_0x (toString_hex (test_blob 157))))) = Some (replicate 32 1)"
    by (simp add: hex_roundtrip test_blob_def test_priv_def test_crypto_def)
  have h6: "length (replicate 32 (1::byte)) = 32" by simp
  have sha: "sha256 test_crypto (2 # replicate 32 1) = 2 # replicate 31 1"
    by (simp add: test_crypto_def)
  have prk: "hmac_sha256 test_crypto (replicate 32 0) (2 # replicate 31 1) = replicate 32 33"
    by (simp add: test_crypto_def sum_list_replicate)
  from decryptSymmetricKey_key_derivation [OF h1 h2 h3 h4 h5 h6 test_hmac_32]
  have "fst (decryptSymmetricKey test_crypto (toString_hex (test_blob 157)) (toString_hex test_priv)) =
       [EcdhComputeSecret (replicate 32 1) (replicate 65 0),
        Sha256 (2 # replicate 32 1),
        HmacSha256 (replicate 32 0) (2 # replicate 31 1),
        HmacSha256 (replicate 32 33) (key_derivation_info @ [1]),
        AesGcmDecrypt (replicate 32 23) (replicate 12 0) (replicate 32 8) (replicate 16 31)]"
    using test_key_23 sha prk
    by (simp add: Let_def hex_roundtrip test_blob_def test_priv_def)
  with h1 h2 test_hmac_32 show ?thesis by blast
qed

section \<open>Decrypting the symmetric key\<close>

text \<open>The stand-in primitives on the test blobs.\<close>

lemma test_key_85:
  "rfc5869_hkdf test_crypto (replicate 32 0) (sha256 test_crypto (2 # replicate 32 3))
     key_derivation_info 32 = replicate 32 85"
proof -
  have "rfc5869_hkdf test_crypto (replicate 32 0) (sha256 test_crypto (2 # replicate 32 3))
     key_derivation_info 32
     = hmac_sha256 test_crypto
        (hmac_sha256 test_crypto (replicate 32 0) (sha256 test_crypto (2 # replicate 32 3)))
        (key_derivation_info @ [1])"
    using test_hmac_32 by (simp add: rfc5869_hkdf_32)
  also have "\<dots> = replicate 32 85"
    using sum_info by (simp add: test_crypto_def sum_list_replicate)
  finally show ?thesis .
qed

lemma test_blob_parts:
  "125 \<le> n \<Longrightarrow>
   test_blob n = replicate 65 0 @ replicate 32 0 @ replicate 12 0 @ replicate (n - 125) 8
                   @ replicate 16 31"
  by (simp add: test_blob_def replicate_add [symmetric])

lemma test_open_good:
  "16 \<le> m \<Longrightarrow>
   aes_256_gcm_open test_crypto (spec_encryption_key test_crypto (replicate 32 1) (replicate 32 0))
     (replicate 12 0) (replicate m 8) (replicate 16 31) = Some (replicate m 7)"
  by (simp add: spec_encryption_key_def test_key_23) (simp add: test_crypto_def test_tag_def)

lemma test_open_bad:
  "16 \<le> m \<Longrightarrow>
   aes_256_gcm_open test_crypto (spec_encryption_key test_crypto (replicate 32 3) (replicate 32 0))
     (replicate 12 0) (replicate m 8) (replicate 16 31) = None"
  by (simp add: spec_encryption_key_def test_key_85) (simp add: test_crypto_def test_tag_def)

lemma test_ecdh:
  "ecdh_computeSecret test_crypto (replicate 32 b) (replicate 65 0) = Some (replicate 32 b)"
  by (simp add: test_crypto_def)

lemma test_decrypt:
  assumes "157 \<le> n"
  shows "snd (decryptSymmetricKey test_crypto (toString_hex (test_blob n)) (toString_hex test_priv))
           = Inr (replicate (n - 125) 7)"
proof -
  have h1: "toString_hex (test_blob n) \<noteq> []"
    by (simp add: toString_hex_eq_Nil test_blob_def)
  have h2: "toString_hex test_priv \<noteq> []"
    by (simp add: toString_hex_eq_Nil test_priv_def)
  have h3: "length (Buffer_from_hex (strip_0x (toString_hex test_priv))) = 32"
    by (simp add: hex_roundtrip test_priv_def)
  have h4: "157 \<le> length (Buffer_from_hex (strip_0x (toString_hex (test_blob n))))"
    using assms by (simp add: hex_roundtrip test_blob_def)
  have h5: "ecdh_computeSecret test_crypto (Buffer_from_hex (strip_0x (toString_hex test_priv)))
              (take 65 (Buffer_from_hex (strip_0x (toString_hex (test_blob n))))) = Some (replicate 32 1)"
    using test_ecdh [of 1] by (simp add: hex_roundtrip test_blob_def test_priv_def)
  have h6: "length (replicate 32 (1::byte)) = 32" by simp
  have m: "16 \<le> n - 125" using assms by simp
  show ?thesis
    using decryptSymmetricKey_run [OF h1 h2 h3 h4 h5 h6 test_hmac_32] test_open_good [OF m] assms
    by (simp add: Let_def hex_roundtrip test_blob_def)
qed

text \<open>
  C2, as the code has it. Take a blob made of a 65-byte ephemeral public key, a 32-byte
  salt, a 12-byte nonce, a ciphertext and a 16-byte tag, correctly encrypted: under the
  key derived for the beneficiary's private key the cipher accepts ciphertext and tag and
  returns a key of the ciphertext's length, and under the key derived for another private
  key the tag does not verify. With 32 ciphertext bytes (157 bytes in all)
  \<open>decryptSymmetricKey\<close> returns that 32-byte key for the right private key and fails
  with the decipher's authentication error for the other one. With 16 ciphertext bytes
  (141 bytes in all) it rejects the blob as too short for either key.
\<close>

theorem decryptSymmetricKey_end_to_end:
  assumes "enc \<noteq> []" and "privKey \<noteq> []" and "otherKey \<noteq> []"
    and "Buffer_from_hex (strip_0x enc) = epk @ salt @ nonce @ ciphertext @ tag"
    and "length epk = 65" and "length salt = 32" and "length nonce = 12" and "length tag = 16"
    and "length (Buffer_from_hex (strip_0x privKey)) = 32"
    and "length (Buffer_from_hex (strip_0x otherKey)) = 32"
    and "ecdh_computeSecret cr (Buffer_from_hex (strip_0x privKey)) epk = Some X"
    and "length X = 32"
    and "ecdh_computeSecret cr (Buffer_from_hex (strip_0x otherKey)) epk = Some X'"
    and "length X' = 32"
    and "\<forall>k d. length (hmac_sha256 cr k d) = 32"
    and "aes_256_gcm_open cr (spec_encryption_key cr X salt) nonce ciphertext tag = Some key"
    and "length key = length ciphertext"
    and "aes_256_gcm_open cr (spec_encryption_key cr X' salt) nonce ciphertext tag = None"
  shows "(length ciphertext = 32 \<longrightarrow>
            snd (decryptSymmetricKey cr enc privKey) = Inr key \<and> length key = 32
            \<and> snd (decryptSymmetricKey cr enc otherKey) = Inl AuthenticationFailed)
       \<and> (length ciphertext = 16 \<longrightarrow>
            decryptSymmetricKey cr enc privKey = ([], Inl (EncryptedKeyTooShort 141 157))
            \<and> decryptSymmetricKey cr enc otherKey = ([], Inl (EncryptedKeyTooShort 141 157)))"
proof (intro conjI impI)
  assume c: "length ciphertext = 32"
  have len: "157 \<le> length (Buffer_from_hex (strip_0x enc))"
    using assms(4-8) c by simp
  have epk: "take 65 (Buffer_from_hex (strip_0x enc)) = epk"
    using assms(4,5) by simp
  have parts: "take 32 (drop 65 (Buffer_from_hex (strip_0x enc))) = salt"
    "take 12 (drop 97 (Buffer_from_hex (strip_0x enc))) = nonce"
    "take (length (Buffer_from_hex (strip_0x enc)) - 125) (drop 109 (Buffer_from_hex (strip_0x enc))) = ciphertext"
    "drop (length (Buffer_from_hex (strip_0x enc)) - 16) (Buffer_from_hex (strip_0x enc)) = tag"
    using assms(4-8) c by simp_all
  have e1: "ecdh_computeSecret cr (Buffer_from_hex (strip_0x privKey))
              (take 65 (Buffer_from_hex (strip_0x enc))) = Some X"
    using assms(11) epk by simp
  have e2: "ecdh_computeSecret cr (Buffer_from_hex (strip_0x otherKey))
              (take 65 (Buffer_from_hex (strip_0x enc))) = Some X'"
    using assms(13) epk by simp
  show "snd (decryptSymmetricKey cr enc privKey) = Inr key"
    using decryptSymmetricKey_run [OF assms(1,2,9) len e1 assms(12,15)] assms(16) parts
    by (simp add: Let_def)
  show "length key = 32" using assms(17) c by simp
  show "snd (decryptSymmetricKey cr enc otherKey) = Inl AuthenticationFailed"
    using decryptSymmetricKey_run [OF assms(1,3,10) len e2 assms(14,15)] assms(18) parts
    by (simp add: Let_def)
next
  assume c: "length ciphertext = 16"
  have len: "length (Buffer_from_hex (strip_0x enc)) = 141"
    using assms(4-8) c by simp
  show "decryptSymmetricKey cr enc privKey = ([], Inl (EncryptedKeyTooShort 141 157))"
    using assms(1,2,9) len by (simp add: decryptSymmetricKey_def)
  show "decryptSymmetricKey cr enc otherKey = ([], Inl (EncryptedKeyTooShort 141 157))"
    using assms(1,3,10) len by (simp add: decryptSymmetricKey_def)
qed

text \<open>C2 on the test blobs of 157 and of 141 bytes, with the private keys of bytes 1
  and of bytes 3.\<close>

theorem decryptSymmetricKey_end_to_end_witness:
  "snd (decryptSymmetricKey test_crypto (toString_hex (test_blob 157)) (toString_hex test_priv))
     = Inr (replicate 32 7)
   \<and> snd (decryptSymmetricKey test_crypto (toString_hex (test_blob 157))
            (toString_hex (replicate 32 3))) = Inl AuthenticationFailed
   \<and> decryptSymmetricKey test_crypto (toString_hex (test_blob 141)) (toString_hex test_priv)
       = ([], Inl (EncryptedKeyTooShort 141 157))
   \<and> decryptSymmetricKey test_crypto (toString_hex (test_blob 141)) (toString_hex (replicate 32 3))
       = ([], Inl (EncryptedKeyTooShort 141 157))"
proof -
  have ne: "toString_hex (test_blob n) \<noteq> []" for n
    by (simp add: toString_hex_eq_Nil test_blob_def)
  have p: "toString_hex test_priv \<noteq> []" "toString_hex (replicate 32 3) \<noteq> []"
    by (simp_all add: toString_hex_eq_Nil test_priv_def)
  have blob: "Buffer_from_hex (strip_0x (toString_hex (test_blob n))) =
      replicate 65 0 @ replicate 32 0 @ replicate 12 0 @ replicate (n - 125) 8 @ replicate 16 31"
    if "125 \<le> n" for n
    using that by (simp add: hex_roundtrip test_blob_parts)
  have l: "length (replicate 65 (0::byte)) = 65" "length (replicate 32 (0::byte)) = 32"
    "length (replicate 12 (0::byte)) = 12" "length (replicate 16 (31::byte)) = 16"
    by simp_all
  have k: "length (Buffer_from_hex (strip_0x (toString_hex test_priv))) = 32"
    "length (Buffer_from_hex (strip_0x (toString_hex (replicate 32 3)))) = 32"
    by (simp_all add: hex_roundtrip test_priv_def)
  have x: "ecdh_computeSecret test_crypto (Buffer_from_hex (strip_0x (toString_hex test_priv)))
             (replicate 65 0) = Some (replicate 32 1)"
    "ecdh_computeSecret test_crypto (Buffer_from_hex (strip_0x (toString_hex (replicate 32 3))))
             (replicate 65 0) = Some (replicate 32 3)"
    using test_ecdh [of 1] test_ecdh [of 3] by (simp_all add: hex_roundtrip test_priv_def)
  have xl: "length (replicate 32 (1::byte)) = 32" "length (replicate 32 (3::byte)) = 32"
    by simp_all
  have kl: "length (replicate m (7::byte)) = length (replicate m (8::byte))" for m
    by simp
  note r157 = decryptSymmetricKey_end_to_end
      [OF ne p(1) p(2) blob l k x(1) xl(1) x(2) xl(2) test_hmac_32
          test_open_good [of "157 - 125"] kl test_open_bad [of "157 - 125"]]
  note r141 = decryptSymmetricKey_end_to_end
      [OF ne p(1) p(2) blob l k x(1) xl(1) x(2) xl(2) test_hmac_32
          test_open_good [of "141 - 125"] kl test_open_bad [of "141 - 125"]]
  from r157 r141 show ?thesis by simp
qed

text \<open>C2 as stated fails: the 141-byte blob of the scenario is correctly encrypted for
  the private key, and is rejected as too short for this key and for another one.\<close>

theorem blob_of_141_bytes_rejected:
  "test_blob 141 = replicate 65 0 @ replicate 32 0 @ replicate 12 0 @ replicate 16 8 @ replicate 16 31
   \<and> ecdh_computeSecret test_crypto test_priv (replicate 65 0) = Some (replicate 32 1)
   \<and> aes_256_gcm_open test_crypto (spec_encryption_key test_crypto (replicate 32 1) (replicate 32 0))
        (replicate 12 0) (replicate 16 8) (replicate 16 31) = Some (replicate 16 7)
   \<and> decryptSymmetricKey test_crypto (toString_hex (test_blob 141)) (toString_hex test_priv)
        = ([], Inl (EncryptedKeyTooShort 141 157))
   \<and> decryptSymmetricKey test_crypto (toString_hex (test_blob 141)) (toString_hex (replicate 32 3))
        = ([], Inl (EncryptedKeyTooShort 141 157))"
  using test_blob_parts [of 141] test_ecdh [of 1] test_open_good [of 16]
  by (simp add: test_priv_def decryptSymmetricKey_def hex_roundtrip toString_hex_eq_Nil)

text \<open>
  C3, as the code has it. When \<open>decryptSymmetricKey\<close> returns a key, under a cipher whose
  plaintext has the length of its ciphertext (as AES-GCM's has), the key is as long as the
  blob's ciphertext: the length of the blob minus the 125 bytes of the fixed fields, at
  least 32, and exactly 32 only for a blob of exactly 157 bytes.
\<close>

theorem decryptSymmetricKey_key_length:
  assumes "snd (decryptSymmetricKey cr enc privKey) = Inr key"
    and "\<forall>k n c t p. aes_256_gcm_open cr k n c t = Some p \<longrightarrow> length p = length c"
  shows "157 \<le> length (Buffer_from_hex (strip_0x enc))
       \<and> length key = length (Buffer_from_hex (strip_0x enc)) - 125
       \<and> 32 \<le> length key
       \<and> (length key = 32 \<longleftrightarrow> length (Buffer_from_hex (strip_0x enc)) = 157)"
proof -
  let ?blob = "Buffer_from_hex (strip_0x enc)"
  from assms(1) have len: "157 \<le> length ?blob"
    by (auto simp: decryptSymmetricKey_def Let_def split: if_splits)
  from assms(1) obtain K n where
    "aes_256_gcm_open cr K n (subarray ?blob 109 (length ?blob - 16)) (subarray_from ?blob (length ?blob - 16)) = Some key"
    by (auto simp: decryptSymmetricKey_def Let_def aes_256_gcm_decipher_def
             split: if_splits option.splits prod.splits)
  with assms(2) have "length key = length (subarray ?blob 109 (length ?blob - 16))"
    by blast
  with len have "length key = length ?blob - 125"
    by (simp add: subarray_def)
  with len show ?thesis by auto
qed

text \<open>C3 on the test blob of 157 bytes.\<close>

theorem decryptSymmetricKey_key_length_witness:
  "snd (decryptSymmetricKey test_crypto (toString_hex (test_blob 157)) (toString_hex test_priv))
     = Inr (replicate 32 7)
   \<and> length (replicate 32 (7::byte)) = length (Buffer_from_hex (strip_0x (toString_hex (test_blob 157)))) - 125"
proof -
  have a: "snd (decryptSymmetricKey test_crypto (toString_hex (test_blob 157)) (toString_hex test_priv))
     = Inr (replicate 32 7)"
    using test_decrypt [of 157] by simp
  have b: "\<forall>k n c t p. aes_256_gcm_open test_crypto k n c t = Some p \<longrightarrow> length p = length c"
    by (auto simp: test_crypto_def split: if_splits)
  from decryptSymmetricKey_key_length [OF a b] a show ?thesis by blast
qed

text \<open>C3 as stated fails: a blob of 158 bytes whose tag verifies yields a key of 33
  bytes.\<close>

theorem decryptSymmetricKey_returns_33_bytes:
  "snd (decryptSymmetricKey test_crypto (toString_hex (test_blob 158)) (toString_hex test_priv))
     = Inr (replicate 33 7)"
  using test_decrypt [of 158] by simp

section \<open>Decrypting the asset\<close>

lemma length_flip_bit: "length (flip_bit i bs) = length bs"
  by (simp add: flip_bit_def)

lemma div8_less: "(i div 8 < n) = (i < 8 * (n::nat))"
  by presburger

lemma flip_bit_append:
  "flip_bit i (xs @ ys) =
     (if i < 8 * length xs then flip_bit i xs @ ys else xs @ flip_bit (i - 8 * length xs) ys)"
proof (cases "i < 8 * length xs")
  case True
  then have "i div 8 < length xs" using div8_less [of i "length xs"] by blast
  with True show ?thesis by (simp add: flip_bit_def list_update_append nth_append)
next
  case False
  then obtain k where i: "i = 8 * length xs + k"
    by (metis le_add_diff_inverse not_less)
  have n: "\<not> i div 8 < length xs" using False div8_less [of i "length xs"] by blast
  have d: "(8 * length xs + k) div 8 = length xs + k div 8" by simp
  have m: "(8 * length xs + k) mod 8 = k mod 8" by simp
  show ?thesis
    using False n
    unfolding i flip_bit_def
    by (simp only: d m list_update_append nth_append add_diff_cancel_left' if_False)
qed


lemma decryptAsset_layout:
  assumes "length nonce = 12" and "length tag = 16" and "ct \<noteq> []"
  shows "decryptAsset cr (nonce @ ct @ tag) key = aes_256_gcm_decipher cr key nonce ct tag"
proof -
  have "1 \<le> length ct" using assms(3) by (cases ct) simp_all
  then show ?thesis
    using assms by (simp add: decryptAsset_def subarray_def subarray_from_def Let_def)
qed

text \<open>
  C8. Take a key of 32 bytes, a nonce of 12 bytes and a plaintext of at least one byte, and
  let AES-256-GCM behave on them as assumed above. Then \<open>decryptAsset\<close> with the same key
  returns the plaintext from nonce || ciphertext || tag, and fails with the decipher's
  authentication error when any single bit after the nonce, that is any bit of the
  ciphertext or of the tag, has been flipped.
\<close>

theorem decryptAsset_roundtrip:
  assumes "length key = 32" and "length nonce = 12" and "pt \<noteq> []"
    and "gcm_opens_what_it_seals cr key nonce pt"
    and "gcm_rejects_flipped_bits cr key nonce pt"
  shows "snd (decryptAsset cr (asset_blob cr key nonce pt) key) = Inr pt
       \<and> (\<forall>i. 8 * 12 \<le> i \<and> i < 8 * length (asset_blob cr key nonce pt) \<longrightarrow>
              snd (decryptAsset cr (flip_bit i (asset_blob cr key nonce pt)) key)
                = Inl AuthenticationFailed)"
proof -
  obtain ct tag where seal: "aes_256_gcm_seal cr key nonce pt = (ct, tag)"
    by (cases "aes_256_gcm_seal cr key nonce pt")
  from assms(4) seal have ct: "length ct = length pt" and tag: "length tag = 16"
    and opens: "aes_256_gcm_open cr key nonce ct tag = Some pt"
    by (simp_all add: gcm_opens_what_it_seals_def)
  from assms(5) seal
  have flip_ct: "\<And>i. i < 8 * length ct \<Longrightarrow> aes_256_gcm_open cr key nonce (flip_bit i ct) tag = None"
    and flip_tag: "\<And>i. i < 8 * length tag \<Longrightarrow> aes_256_gcm_open cr key nonce ct (flip_bit i tag) = None"
    by (simp_all add: gcm_rejects_flipped_bits_def)
  have blob: "asset_blob cr key nonce pt = nonce @ ct @ tag"
    by (simp add: asset_blob_def seal)
  have ne: "ct \<noteq> []" using ct assms(3) by auto
  have good: "snd (decryptAsset cr (asset_blob cr key nonce pt) key) = Inr pt"
    using assms(1) opens
    by (simp add: blob decryptAsset_layout [OF assms(2) tag ne] aes_256_gcm_decipher_def)
  have bad: "snd (decryptAsset cr (flip_bit i (asset_blob cr key nonce pt)) key)
                = Inl AuthenticationFailed"
    if lo: "8 * 12 \<le> i" and hi: "i < 8 * length (asset_blob cr key nonce pt)" for i
  proof (cases "i - 96 < 8 * length ct")
    case True
    have "flip_bit i (nonce @ ct @ tag) = nonce @ flip_bit (i - 96) ct @ tag"
      using lo True assms(2) by (simp add: flip_bit_append)
    moreover have "flip_bit (i - 96) ct \<noteq> []"
      using ne length_flip_bit [of "i - 96" ct] by auto
    ultimately show ?thesis
      using assms(1) flip_ct [OF True]
      by (simp add: blob decryptAsset_layout [OF assms(2) tag] aes_256_gcm_decipher_def)
  next
    case False
    let ?j = "i - 96 - 8 * length ct"
    have j: "?j < 8 * length tag"
      using hi lo False assms(2) by (simp add: blob)
    have "flip_bit i (nonce @ ct @ tag) = nonce @ ct @ flip_bit ?j tag"
      using lo False assms(2) by (simp add: flip_bit_append)
    moreover have "length (flip_bit ?j tag) = 16"
      using tag by (simp add: length_flip_bit)
    ultimately show ?thesis
      using assms(1) flip_tag [OF j] decryptAsset_layout [OF assms(2) _ ne, of "flip_bit ?j tag" cr key]
      by (simp add: blob aes_256_gcm_decipher_def)
  qed
  from good bad show ?thesis by blast
qed

text \<open>C8 on a plaintext of one byte under the stand-in primitives, with a flipped bit
  of the ciphertext (bit 100) and the last bit of the tag (bit 231).\<close>

theorem decryptAsset_roundtrip_witness:
  "length (replicate 32 (2::byte)) = 32 \<and> length (replicate 12 (0::byte)) = 12 \<and> [4::byte] \<noteq> []
   \<and> gcm_opens_what_it_seals test_crypto (replicate 32 2) (replicate 12 0) [4]
   \<and> gcm_rejects_flipped_bits test_crypto (replicate 32 2) (replicate 12 0) [4]
   \<and> asset_blob test_crypto (replicate 32 2) (replicate 12 0) [4]
        = replicate 12 0 @ [5] @ 7 # replicate 15 2
   \<and> snd (decryptAsset test_crypto (replicate 12 0 @ [5] @ 7 # replicate 15 2) (replicate 32 2))
        = Inr [4]
   \<and> snd (decryptAsset test_crypto (flip_bit 100 (replicate 12 0 @ [5] @ 7 # replicate 15 2))
            (replicate 32 2)) = Inl AuthenticationFailed
   \<and> snd (decryptAsset test_crypto (flip_bit 231 (replicate 12 0 @ [5] @ 7 # replicate 15 2))
            (replicate 32 2)) = Inl AuthenticationFailed"
proof -
  have h1: "length (replicate 32 (2::byte)) = 32" by simp
  have h2: "length (replicate 12 (0::byte)) = 12" by simp
  have h3: "[4::byte] \<noteq> []" by simp
  have h4: "gcm_opens_what_it_seals test_crypto (replicate 32 2) (replicate 12 0) [4]"
    by code_simp
  have h5: "gcm_rejects_flipped_bits test_crypto (replicate 32 2) (replicate 12 0) [4]"
    by code_simp
  have b: "asset_blob test_crypto (replicate 32 2) (replicate 12 0) [4]
        = replicate 12 0 @ [5] @ 7 # replicate 15 2"
    by code_simp
  have l: "length (replicate 12 (0::byte) @ [5] @ 7 # replicate 15 2) = 29" by simp
  note r = decryptAsset_roundtrip [OF h1 h2 h3 h4 h5, unfolded b l]
  from r have r1: "snd (decryptAsset test_crypto (replicate 12 0 @ [5] @ 7 # replicate 15 2) (replicate 32 2))
        = Inr [4]" by (rule conjunct1)
  from r have r2: "snd (decryptAsset test_crypto (flip_bit i (replicate 12 0 @ [5] @ 7 # replicate 15 2))
            (replicate 32 2)) = Inl AuthenticationFailed" if "96 \<le> i" "i < 232" for i
    using that by simp
  from h1 h2 h3 h4 h5 b r1 r2 [of 100] r2 [of 231] show ?thesis by simp
qed

section \<open>The claim process\<close>

text \<open>Sequencing, and the stages of the process in the test world.\<close>

lemma and_then_Inl: "and_then (cs, Inl e) f = (cs, Inl e)"
  by (simp add: and_then_def)

lemma and_then_Inr: "and_then (cs, Inr a) f = after cs (f a)"
  by (simp add: and_then_def after_def)

lemma after_pair: "after cs (cs', r) = (cs @ cs', r)"
  by (simp add: after_def)

lemma fst_after: "fst (after cs m) = cs @ fst m"
  by (cases m) (simp add: after_def)

lemma snd_after: "snd (after cs m) = snd m"
  by (cases m) (simp add: after_def)

lemma fst_and_then:
  "fst (and_then m f) = fst m @ (case snd m of Inl e \<Rightarrow> [] | Inr a \<Rightarrow> fst (f a))"
  by (cases m; cases "snd m") (auto simp: and_then_def split: prod.splits)

lemma snd_and_then:
  "snd (and_then m f) = (case snd m of Inl e \<Rightarrow> Inl e | Inr a \<Rightarrow> snd (f a))"
  by (cases m; cases "snd m") (auto simp: and_then_def split: prod.splits)

lemma replicate_32:
  "replicate 32 x = [x, x, x, x, x, x, x, x, x, x, x, x, x, x, x, x,
                     x, x, x, x, x, x, x, x, x, x, x, x, x, x, x, x]"
  by (simp add: eval_nat_numeral)

lemma test_locator_hex:
  "toString_hex test_locator = ''abababababababababababababababababababababababababababababababab''"
  by (simp add: test_locator_def replicate_32 toString_hex_def hex_digit_def)

lemma test_locator_b64:
  "to_base64url (toString_base64 test_locator) = ''q6urq6urq6urq6urq6urq6urq6urq6urq6urq6urq6s''"
  by (simp add: test_locator_def replicate_32 b64_char_def to_base64url_def)

lemma test_ids_distinct:
  "toString_hex test_locator \<noteq> to_base64url (toString_base64 test_locator)"
  by (simp add: test_locator_hex test_locator_b64)

lemma test_strip: "strip_leading_zeros (toString_hex test_locator) = toString_hex test_locator"
  by (simp add: test_locator_hex strip_leading_zeros_def)


lemma test_possibleIds:
  "possibleIds (hexlify test_locator) =
     [toString_hex test_locator, to_base64url (toString_base64 test_locator),
      toString_hex test_locator]"
  by (simp add: possibleIds_def Let_def strip_0x_hexlify Buffer_from_hex_toString_hex test_strip)

lemma test_extension:
  "fileExtension_of_tags test_decode [(''Q29udGVudC1UeXBl'', ''aW1hZ2UvcG5n'')] = ''png''"
  by code_simp

lemma test_retrieve:
  "retrieveAssetFromArweave (test_world st b) (hexlify test_locator) =
     ([ArweaveTxGet (toString_hex test_locator),
       ArweaveDataGet (toString_hex test_locator),
       ArweaveTxGet (to_base64url (toString_base64 test_locator)),
       ArweaveDataGet (to_base64url (toString_base64 test_locator))],
      Inr (test_asset, ''png''))"
  using test_ids_distinct test_ids_distinct [symmetric] test_extension
  by (simp add: retrieveAssetFromArweave_def test_possibleIds test_world_def after_def)


lemma state_lines:
  "state_line 0 = ''Inheritance state: Designated (0)''"
  "state_line 1 = ''Inheritance state: Claimable (1)''"
  "state_line 2 = ''Inheritance state: Claimed (2)''"
  "state_line 3 = ''Inheritance state: Revoked (3)''"
  "state_line 4 = ''Inheritance state: Purged (4)''"
  by code_simp+

lemma test_isClaimable:
  "isInheritanceClaimable (test_world st b) test_id =
     ([ContractInheritances test_id, ConsoleLog (state_line (unat st))], Inr (unat st = 1))"
  by (simp add: isInheritanceClaimable_def test_world_def test_inheritance_def Let_def)

lemma test_fetch:
  "fetchArweaveTransactionId (test_world st b) test_id =
     ([ContractFetchArweaveTransactionId test_id, ContractInheritances test_id],
      Inr (hexlify test_locator))"
  by (simp add: fetchArweaveTransactionId_def test_world_def test_inheritance_def after_def)

lemma test_keyserver:
  "retrieveEncryptedSymmetricKey (test_world st b) test_id net =
     ([KeyServerGet test_id net], Inr (toString_hex (test_blob 157)))"
  by (simp add: retrieveEncryptedSymmetricKey_def test_world_def after_def toString_hex_eq_Nil
        test_blob_def)

lemma test_decrypt_calls:
  "decryptSymmetricKey test_crypto (toString_hex (test_blob 157)) (toString_hex test_priv) =
     ([EcdhComputeSecret (replicate 32 1) (replicate 65 0),
       Sha256 (2 # replicate 32 1),
       HmacSha256 (replicate 32 0) (2 # replicate 31 1),
       HmacSha256 (replicate 32 33) (key_derivation_info @ [1]),
       AesGcmDecrypt (replicate 32 23) (replicate 12 0) (replicate 32 8) (replicate 16 31)],
      Inr (replicate 32 7))"
proof -
  have h1: "toString_hex (test_blob 157) \<noteq> []"
    by (simp add: toString_hex_eq_Nil test_blob_def)
  have h2: "toString_hex test_priv \<noteq> []"
    by (simp add: toString_hex_eq_Nil test_priv_def)
  have h3: "length (Buffer_from_hex (strip_0x (toString_hex test_priv))) = 32"
    by (simp add: hex_roundtrip test_priv_def)
  have h4: "157 \<le> length (Buffer_from_hex (strip_0x (toString_hex (test_blob 157))))"
    by (simp add: hex_roundtrip test_blob_def)
  have h5: "ecdh_computeSecret test_crypto (Buffer_from_hex (strip_0x (toString_hex test_priv)))
              (take 65 (Buffer_from_hex (strip_0x (toString_hex (test_blob 157))))) = Some (replicate 32 1)"
    using test_ecdh [of 1] by (simp add: hex_roundtrip test_blob_def test_priv_def)
  have h6: "length (replicate 32 (1::byte)) = 32" by simp
  have sha: "sha256 test_crypto (2 # replicate 32 1) = 2 # replicate 31 1"
    by (simp add: test_crypto_def)
  have prk: "hmac_sha256 test_crypto (replicate 32 0) (2 # replicate 31 1) = replicate 32 33"
    by (simp add: test_crypto_def sum_list_replicate)
  have key: "spec_encryption_key test_crypto (replicate 32 1) (replicate 32 0) = replicate 32 23"
    by (simp add: spec_encryption_key_def test_key_23)
  show ?thesis
    using decryptSymmetricKey_run [OF h1 h2 h3 h4 h5 h6 test_hmac_32] test_open_good [of 32]
      sha prk key
    by (simp add: Let_def hex_roundtrip test_blob_def test_priv_def)
qed

lemma test_decryptAsset:
  "decryptAsset test_crypto test_asset (replicate 32 7) =
     ([AesGcmDecrypt (replicate 32 7) (replicate 12 0) [105, 106] ([110, 109] @ replicate 14 7)],
      Inr [104, 105])"
  by code_simp

lemma test_saveFile:
  "saveFile (test_world st b) d test_id ''png'' = ([WriteFile ''inheritance_0x000000.png'' d], Inr ())"
proof -
  have "take 8 test_id = ''0x000000''" by code_simp
  then show ?thesis by (simp add: saveFile_def test_world_def)
qed
lemma try_possibleIds_error:
  "snd (try_possibleIds w ids) = Inl e \<Longrightarrow> e = ArweaveAllFormatsFailed"
  by (induction ids) (auto simp: snd_after Let_def split: option.splits if_splits)

lemma later_stages_error:
  "snd (fetchArweaveTransactionId w i) \<noteq> Inl NotInClaimableState"
  "snd (retrieveEncryptedSymmetricKey w i n) \<noteq> Inl NotInClaimableState"
  "snd (decryptSymmetricKey cr enc pk) \<noteq> Inl NotInClaimableState"
  "snd (retrieveAssetFromArweave w t) \<noteq> Inl NotInClaimableState"
  "snd (decryptAsset cr d k) \<noteq> Inl NotInClaimableState"
  "snd (saveFile w d i x) \<noteq> Inl NotInClaimableState"
proof -
  show "snd (fetchArweaveTransactionId w i) \<noteq> Inl NotInClaimableState"
    by (simp add: fetchArweaveTransactionId_def snd_after split: option.splits)
  show "snd (retrieveEncryptedSymmetricKey w i n) \<noteq> Inl NotInClaimableState"
    by (simp add: retrieveEncryptedSymmetricKey_def snd_after split: key_response.splits option.splits)
  show "snd (decryptSymmetricKey cr enc pk) \<noteq> Inl NotInClaimableState"
    by (simp add: decryptSymmetricKey_def Let_def aes_256_gcm_decipher_def
          split: option.splits prod.splits)
  show "snd (retrieveAssetFromArweave w t) \<noteq> Inl NotInClaimableState"
    using try_possibleIds_error [of w "possibleIds t" NotInClaimableState]
    by (auto simp: retrieveAssetFromArweave_def)
  show "snd (decryptAsset cr d k) \<noteq> Inl NotInClaimableState"
    by (simp add: decryptAsset_def Let_def aes_256_gcm_decipher_def split: option.splits)
  show "snd (saveFile w d i x) \<noteq> Inl NotInClaimableState"
    by (simp add: saveFile_def Let_def)
qed

lemma hd_fetchArweaveTransactionId:
  "\<exists>cs. fst (fetchArweaveTransactionId w i) = ContractFetchArweaveTransactionId i # cs"
  by (simp add: fetchArweaveTransactionId_def fst_after split: option.splits)

text \<open>
  C5, as the code has it. The gate reads the record and prints the line that names its
  state. For every state other than 1 the process stops there, before any later stage,
  with one and the same error, \<open>Inheritance is not in Claimable state\<close>; with state 1
  the next stage, the lookup of the storage locator, runs, and whatever happens later is
  not that error. What tells the states apart is the printed line: it names Designated,
  Claimed, Revoked and Purged for the states 0, 2, 3 and 4.
\<close>

theorem claimInheritance_gate:
  assumes "contract_inheritances w inheritanceId = Some inh"
  shows "(unat (state inh) \<noteq> 1 \<longrightarrow>
            claimInheritance w inheritanceId beneficiaryKeys networkName =
              ([ContractInheritances inheritanceId, ConsoleLog (state_line (unat (state inh)))],
               Inl NotInClaimableState))
       \<and> (unat (state inh) = 1 \<longrightarrow>
            take 3 (fst (claimInheritance w inheritanceId beneficiaryKeys networkName)) =
              [ContractInheritances inheritanceId, ConsoleLog (state_line 1),
               ContractFetchArweaveTransactionId inheritanceId]
            \<and> snd (claimInheritance w inheritanceId beneficiaryKeys networkName)
                  \<noteq> Inl NotInClaimableState)
       \<and> state_line 0 = ''Inheritance state: Designated (0)''
       \<and> state_line 2 = ''Inheritance state: Claimed (2)''
       \<and> state_line 3 = ''Inheritance state: Revoked (3)''
       \<and> state_line 4 = ''Inheritance state: Purged (4)''"
proof (intro conjI impI)
  have gate: "isInheritanceClaimable w inheritanceId =
      ([ContractInheritances inheritanceId, ConsoleLog (state_line (unat (state inh)))],
       Inr (unat (state inh) = 1))"
    using assms by (simp add: isInheritanceClaimable_def Let_def)
  {
    assume "unat (state inh) \<noteq> 1"
    then show "claimInheritance w inheritanceId beneficiaryKeys networkName =
              ([ContractInheritances inheritanceId, ConsoleLog (state_line (unat (state inh)))],
               Inl NotInClaimableState)"
      by (simp add: claimInheritance_def gate and_then_Inr after_pair)
  }
  {
    assume one: "unat (state inh) = 1"
    obtain cs where cs: "fst (fetchArweaveTransactionId w inheritanceId) =
        ContractFetchArweaveTransactionId inheritanceId # cs"
      using hd_fetchArweaveTransactionId by blast
    show "take 3 (fst (claimInheritance w inheritanceId beneficiaryKeys networkName)) =
              [ContractInheritances inheritanceId, ConsoleLog (state_line 1),
               ContractFetchArweaveTransactionId inheritanceId]"
      using one cs
      by (simp add: claimInheritance_def gate and_then_Inr fst_after fst_and_then)
    show "snd (claimInheritance w inheritanceId beneficiaryKeys networkName)
            \<noteq> Inl NotInClaimableState"
      using one later_stages_error
      by (auto simp: claimInheritance_def gate and_then_Inr snd_after snd_and_then Let_def
               split: sum.splits prod.splits)
  }
qed (simp_all add: state_lines)

text \<open>C5 on a revoked and on a claimable inheritance.\<close>

theorem claimInheritance_gate_witness:
  "contract_inheritances (test_world 3 ''0xaaaaaaaaaaaaaaaaaaaaaaaaaaaaaaaaaaaaaaaa'') test_id \<noteq> None
   \<and> claimInheritance (test_world 3 ''0xaaaaaaaaaaaaaaaaaaaaaaaaaaaaaaaaaaaaaaaa'') test_id (test_keys ''0xaaaaaaaaaaaaaaaaaaaaaaaaaaaaaaaaaaaaaaaa'') ''ethereum'' =
       ([ContractInheritances test_id, ConsoleLog ''Inheritance state: Revoked (3)''],
        Inl NotInClaimableState)
   \<and> take 3 (fst (claimInheritance (test_world 1 ''0xaaaaaaaaaaaaaaaaaaaaaaaaaaaaaaaaaaaaaaaa'') test_id (test_keys ''0xaaaaaaaaaaaaaaaaaaaaaaaaaaaaaaaaaaaaaaaa'')
         ''ethereum'')) =
       [ContractInheritances test_id, ConsoleLog ''Inheritance state: Claimable (1)'',
        ContractFetchArweaveTransactionId test_id]"
proof -
  have h: "contract_inheritances (test_world st ''0xaaaaaaaaaaaaaaaaaaaaaaaaaaaaaaaaaaaaaaaa'') test_id =
      Some (test_inheritance st ''0xaaaaaaaaaaaaaaaaaaaaaaaaaaaaaaaaaaaaaaaa'')" for st
    by (simp add: test_world_def)
  have st: "state (test_inheritance st b) = st" for st b
    by (simp add: test_inheritance_def)
  have s1: "state_line (Suc 0) = ''Inheritance state: Claimable (1)''"
    using state_lines(2) by simp
  from claimInheritance_gate [OF h [of 3], of "test_keys ''0xaaaaaaaaaaaaaaaaaaaaaaaaaaaaaaaaaaaaaaaa''" "''ethereum''"]
       claimInheritance_gate [OF h [of 1], of "test_keys ''0xaaaaaaaaaaaaaaaaaaaaaaaaaaaaaaaaaaaaaaaa''" "''ethereum''"]
       h [of 3]
  show ?thesis by (simp add: s1 st)
qed

text \<open>C5 as stated fails: the error for a designated inheritance and the error for a
  claimed one are the same value, so the failure carries no reason that depends on the
  state.\<close>

theorem not_claimable_error_has_no_sub_reason:
  "snd (claimInheritance (test_world 0 ''0xaaaaaaaaaaaaaaaaaaaaaaaaaaaaaaaaaaaaaaaa'') test_id (test_keys ''0xaaaaaaaaaaaaaaaaaaaaaaaaaaaaaaaaaaaaaaaa'') ''ethereum'')
     = Inl NotInClaimableState
   \<and> snd (claimInheritance (test_world 2 ''0xaaaaaaaaaaaaaaaaaaaaaaaaaaaaaaaaaaaaaaaa'') test_id (test_keys ''0xaaaaaaaaaaaaaaaaaaaaaaaaaaaaaaaaaaaaaaaa'') ''ethereum'')
     = Inl NotInClaimableState"
  by (simp add: claimInheritance_def test_isClaimable and_then_Inr after_pair)

text \<open>
  C6. The claim process of the tool compares no identities. Here the record names the
  beneficiary \<open>0xbb...\<close> and the caller's address is \<open>0xaa...\<close>: nothing is printed about
  it and the process runs to the end, writing the decrypted file.
\<close>

theorem claimInheritance_ignores_beneficiary:
  "claimInheritance (test_world 1 ''0xbbbbbbbbbbbbbbbbbbbbbbbbbbbbbbbbbbbbbbbb'') test_id (test_keys ''0xaaaaaaaaaaaaaaaaaaaaaaaaaaaaaaaaaaaaaaaa'') ''ethereum'' =
     ([ContractInheritances test_id,
       ConsoleLog ''Inheritance state: Claimable (1)'',
       ContractFetchArweaveTransactionId test_id,
       ContractInheritances test_id,
       KeyServerGet test_id ''ethereum'',
       EcdhComputeSecret (replicate 32 1) (replicate 65 0),
       Sha256 (2 # replicate 32 1),
       HmacSha256 (replicate 32 0) (2 # replicate 31 1),
       HmacSha256 (replicate 32 33) (key_derivation_info @ [1]),
       AesGcmDecrypt (replicate 32 23) (replicate 12 0) (replicate 32 8) (replicate 16 31),
       ArweaveTxGet (toString_hex test_locator),
       ArweaveDataGet (toString_hex test_locator),
       ArweaveTxGet (to_base64url (toString_base64 test_locator)),
       ArweaveDataGet (to_base64url (toString_base64 test_locator)),
       AesGcmDecrypt (replicate 32 7) (replicate 12 0) [105, 106] ([110, 109] @ replicate 14 7),
       WriteFile ''inheritance_0x000000.png'' [104, 105]],
      Inr ())"
proof -
  have k: "strip_0x (privateKey (test_keys ''0xaaaaaaaaaaaaaaaaaaaaaaaaaaaaaaaaaaaaaaaa'')) = toString_hex test_priv"
    using strip_0x_hexlify [of test_priv] by (simp add: test_keys_def hexlify_def)
  have c: "crypto (test_world 1 ''0xbbbbbbbbbbbbbbbbbbbbbbbbbbbbbbbbbbbbbbbb'') = test_crypto"
    by (simp add: test_world_def)
  have s1: "state_line (Suc 0) = ''Inheritance state: Claimable (1)''"
    using state_lines(2) by simp
  show ?thesis
    by (simp add: claimInheritance_def Let_def k c test_isClaimable test_fetch test_keyserver
          test_decrypt_calls test_retrieve and_then_Inr and_then_Inl after_pair
          test_decryptAsset test_saveFile s1)
qed

text \<open>More generally, no stage reads the beneficiary of the record or the address of the
  caller: changing either changes nothing.\<close>

lemma try_possibleIds_cong:
  assumes "arweave_tx_get w' = arweave_tx_get w" and "arweave_data_get w' = arweave_data_get w"
    and "base64url_to_utf8 w' = base64url_to_utf8 w"
  shows "try_possibleIds w' ids = try_possibleIds w ids"
proof (induction ids)
  case Nil
  show ?case by simp
next
  case (Cons i ids)
  show ?case by (simp only: try_possibleIds.simps assms Cons.IH)
qed

lemma stages_never_read_beneficiary:
  fixes w b
  defines "w' \<equiv> w\<lparr>contract_inheritances :=
          \<lambda>i. map_option (\<lambda>r. r\<lparr>beneficiaryEOA := b\<rparr>) (contract_inheritances w i)\<rparr>"
  shows "isInheritanceClaimable w' i = isInheritanceClaimable w i"
    and "fetchArweaveTransactionId w' i = fetchArweaveTransactionId w i"
    and "retrieveEncryptedSymmetricKey w' i n = retrieveEncryptedSymmetricKey w i n"
    and "retrieveAssetFromArweave w' t = retrieveAssetFromArweave w t"
    and "saveFile w' d i x = saveFile w d i x"
    and "crypto w' = crypto w"
proof -
  show "isInheritanceClaimable w' i = isInheritanceClaimable w i"
    by (cases "contract_inheritances w i") (simp_all add: isInheritanceClaimable_def w'_def)
  show "fetchArweaveTransactionId w' i = fetchArweaveTransactionId w i"
    by (cases "contract_inheritances w i")
       (simp_all add: fetchArweaveTransactionId_def w'_def split: option.splits)
  show "retrieveEncryptedSymmetricKey w' i n = retrieveEncryptedSymmetricKey w i n"
    by (simp add: retrieveEncryptedSymmetricKey_def w'_def)
  show "retrieveAssetFromArweave w' t = retrieveAssetFromArweave w t"
    unfolding retrieveAssetFromArweave_def
    by (rule try_possibleIds_cong) (simp_all add: w'_def)
  show "saveFile w' d i x = saveFile w d i x"
    by (simp add: saveFile_def w'_def)
  show "crypto w' = crypto w"
    by (simp add: w'_def)
qed

lemma claimInheritance_never_reads_beneficiary:
  "claimInheritance
     (w\<lparr>contract_inheritances :=
          \<lambda>i. map_option (\<lambda>r. r\<lparr>beneficiaryEOA := b\<rparr>) (contract_inheritances w i)\<rparr>)
     inheritanceId (keys\<lparr>address := a\<rparr>) networkName
   = claimInheritance w inheritanceId keys networkName"
proof -
  have "privateKey (keys\<lparr>address := a\<rparr>) = privateKey keys" by simp
  then show ?thesis
    by (simp only: claimInheritance_def stages_never_read_beneficiary)
qed

section \<open>Retrieving the asset\<close>

lemma try_possibleIds_spec:
  "snd (try_possibleIds w ids) =
     (case first_resolved w ids of None \<Rightarrow> Inl ArweaveAllFormatsFailed | Some r \<Rightarrow> Inr r)
   \<and> tx_probes (fst (try_possibleIds w ids)) = attempted w ids"
  by (induction ids)
     (auto simp: resolves_def fst_after snd_after Let_def split: option.splits)

lemma attempted_prefix: "attempted w ids = take (length (attempted w ids)) ids"
  by (induction ids) (auto split: option.splits)

lemma possibleIds_hexlify:
  "possibleIds (hexlify loc) =
     [toString_hex loc, to_base64url (toString_base64 loc), strip_leading_zeros (toString_hex loc)]"
  by (simp add: possibleIds_def Let_def strip_0x_hexlify Buffer_from_hex_toString_hex)

lemma to_base64url_chars:
  "CHR ''+'' \<notin> set (to_base64url s) \<and> CHR ''/'' \<notin> set (to_base64url s)
   \<and> CHR ''='' \<notin> set (to_base64url s)"
  by (auto simp: to_base64url_def)

text \<open>
  C7, as the code has it. For a locator of 32 bytes the identifiers tried are, in this
  order, its 64 hex digits, its base64 form with \<open>+\<close> and \<open>/\<close> replaced and the
  padding removed, and the hex digits without their leading run of the character \<open>0\<close>.
  The result is that of the first identifier for which the metadata request and the
  download both answer 200, with the extension read from that identifier's metadata; the
  metadata requests made are the identifiers up to and including that one, an initial
  segment of the list, so that no entry of the list is requested twice; and the retrieval
  fails exactly when none of the three resolves.
\<close>

theorem retrieveAssetFromArweave_fallback:
  assumes "length loc = 32"
  shows "possibleIds (hexlify loc) =
           [toString_hex loc, to_base64url (toString_base64 loc),
            strip_leading_zeros (toString_hex loc)]
       \<and> length (toString_hex loc) = 64
       \<and> CHR ''+'' \<notin> set (to_base64url (toString_base64 loc))
       \<and> CHR ''/'' \<notin> set (to_base64url (toString_base64 loc))
       \<and> CHR ''='' \<notin> set (to_base64url (toString_base64 loc))
       \<and> strip_leading_zeros (toString_hex loc) = dropWhile (\<lambda>c. c = CHR ''0'') (toString_hex loc)
       \<and> snd (retrieveAssetFromArweave w (hexlify loc)) =
           (case first_resolved w (possibleIds (hexlify loc)) of
              None \<Rightarrow> Inl ArweaveAllFormatsFailed
            | Some r \<Rightarrow> Inr r)
       \<and> tx_probes (fst (retrieveAssetFromArweave w (hexlify loc))) =
           attempted w (possibleIds (hexlify loc))
       \<and> attempted w (possibleIds (hexlify loc)) =
           take (length (attempted w (possibleIds (hexlify loc)))) (possibleIds (hexlify loc))
       \<and> (snd (retrieveAssetFromArweave w (hexlify loc)) = Inl ArweaveAllFormatsFailed \<longleftrightarrow>
            resolves w (toString_hex loc) = None
            \<and> resolves w (to_base64url (toString_base64 loc)) = None
            \<and> resolves w (strip_leading_zeros (toString_hex loc)) = None)"
proof -
  let ?ids = "possibleIds (hexlify loc)"
  note spec = try_possibleIds_spec [of w ?ids]
  have ids: "?ids = [toString_hex loc, to_base64url (toString_base64 loc),
                     strip_leading_zeros (toString_hex loc)]"
    by (rule possibleIds_hexlify)
  have len: "length (toString_hex loc) = 64"
    using assms by (simp add: length_toString_hex)
  have chars: "CHR ''+'' \<notin> set (to_base64url (toString_base64 loc))"
    "CHR ''/'' \<notin> set (to_base64url (toString_base64 loc))"
    "CHR ''='' \<notin> set (to_base64url (toString_base64 loc))"
    using to_base64url_chars [of "toString_base64 loc"] by simp_all
  have strip: "strip_leading_zeros (toString_hex loc) = dropWhile (\<lambda>c. c = CHR ''0'') (toString_hex loc)"
    by (simp add: strip_leading_zeros_def)
  have r: "snd (retrieveAssetFromArweave w (hexlify loc)) =
           (case first_resolved w ?ids of None \<Rightarrow> Inl ArweaveAllFormatsFailed | Some r \<Rightarrow> Inr r)"
    using spec by (simp add: retrieveAssetFromArweave_def)
  have p: "tx_probes (fst (retrieveAssetFromArweave w (hexlify loc))) = attempted w ?ids"
    using spec by (simp add: retrieveAssetFromArweave_def)
  have pre: "attempted w ?ids = take (length (attempted w ?ids)) ?ids"
    by (rule attempted_prefix)
  have all: "(snd (retrieveAssetFromArweave w (hexlify loc)) = Inl ArweaveAllFormatsFailed) =
            (resolves w (toString_hex loc) = None
            \<and> resolves w (to_base64url (toString_base64 loc)) = None
            \<and> resolves w (strip_leading_zeros (toString_hex loc)) = None)"
    unfolding r ids by (auto split: option.splits)
  from ids len chars strip r p pre all show ?thesis by blast
qed

text \<open>C7 on the locator of the test world, which resolves with its second identifier.\<close>

theorem retrieveAssetFromArweave_fallback_witness:
  "length test_locator = 32
   \<and> first_resolved (test_world 1 ''0xaaaaaaaaaaaaaaaaaaaaaaaaaaaaaaaaaaaaaaaa'')
         (possibleIds (hexlify test_locator)) = Some (test_asset, ''png'')
   \<and> attempted (test_world 1 ''0xaaaaaaaaaaaaaaaaaaaaaaaaaaaaaaaaaaaaaaaa'')
         (possibleIds (hexlify test_locator)) =
       [toString_hex test_locator, to_base64url (toString_base64 test_locator)]"
proof -
  let ?w = "test_world 1 ''0xaaaaaaaaaaaaaaaaaaaaaaaaaaaaaaaaaaaaaaaa''"
  have h: "length test_locator = 32" by (simp add: test_locator_def)
  note r = retrieveAssetFromArweave_fallback [OF h, of ?w]
  from r have "Inr (test_asset, ''png'') =
      (case first_resolved ?w (possibleIds (hexlify test_locator)) of
         None \<Rightarrow> Inl ArweaveAllFormatsFailed | Some r \<Rightarrow> Inr r)"
    by (simp add: test_retrieve)
  then have a: "first_resolved ?w (possibleIds (hexlify test_locator)) = Some (test_asset, ''png'')"
    by (simp split: option.splits)
  from r have b: "attempted ?w (possibleIds (hexlify test_locator)) =
       [toString_hex test_locator, to_base64url (toString_base64 test_locator)]"
    by (simp add: test_retrieve)
  from h a b show ?thesis by blast
qed

text \<open>
  C7 as stated fails: in the test world the metadata request for the first identifier
  succeeds, its download does not, and the retrieval goes on to the second identifier and
  returns that one's payload and extension. And the third identifier drops hex digits, not
  bytes: the zero digit of a first byte 0x0a is removed.
\<close>

theorem first_probed_encoding_not_selected:
  "arweave_tx_get (test_world 1 ''0xaaaaaaaaaaaaaaaaaaaaaaaaaaaaaaaaaaaaaaaa'')
     (toString_hex test_locator) = Some \<lparr> tx_status = 200, tx_tags = None \<rparr>
   \<and> arweave_data_get (test_world 1 ''0xaaaaaaaaaaaaaaaaaaaaaaaaaaaaaaaaaaaaaaaa'')
     (toString_hex test_locator) = None
   \<and> retrieveAssetFromArweave (test_world 1 ''0xaaaaaaaaaaaaaaaaaaaaaaaaaaaaaaaaaaaaaaaa'')
       (hexlify test_locator) =
     ([ArweaveTxGet (toString_hex test_locator),
       ArweaveDataGet (toString_hex test_locator),
       ArweaveTxGet (to_base64url (toString_base64 test_locator)),
       ArweaveDataGet (to_base64url (toString_base64 test_locator))],
      Inr (test_asset, ''png''))
   \<and> strip_leading_zeros (toString_hex (10 # replicate 31 255))
       = CHR ''a'' # concat (replicate 31 ''ff'')"
proof -
  have "strip_leading_zeros (toString_hex (10 # replicate 31 255))
       = CHR ''a'' # concat (replicate 31 ''ff'')"
    by (simp add: strip_leading_zeros_def toString_hex_def hex_digit_def)
  then show ?thesis
    using test_ids_distinct by (simp add: test_retrieve) (simp add: test_world_def)
qed

section \<open>The file extension\<close>

lemma after_last_slash_none: "CHR ''/'' \<notin> set s \<Longrightarrow> after_last_slash s = s"
proof -
  assume "CHR ''/'' \<notin> set s"
  then have "\<forall>x \<in> set (rev s). x \<noteq> CHR ''/''" by auto
  then have "takeWhile (\<lambda>c. c \<noteq> CHR ''/'') (rev s) = rev s"
    by (simp only: takeWhile_eq_all_conv)
  then show ?thesis unfolding after_last_slash_def by (simp only: rev_rev_ident)
qed

lemma after_last_slash_later:
  "CHR ''/'' \<in> set s \<Longrightarrow> after_last_slash (c # s) = after_last_slash s"
proof -
  assume "CHR ''/'' \<in> set s"
  then have "CHR ''/'' \<in> set (rev s)" by simp
  then have "takeWhile (\<lambda>c. c \<noteq> CHR ''/'') (rev s @ [c]) = takeWhile (\<lambda>c. c \<noteq> CHR ''/'') (rev s)"
    by (rule takeWhile_append1) simp
  then show ?thesis by (simp add: after_last_slash_def)
qed

lemma after_last_slash_here:
  "CHR ''/'' \<notin> set s \<Longrightarrow> after_last_slash (CHR ''/'' # s) = s"
proof -
  assume "CHR ''/'' \<notin> set s"
  then have "\<And>x. x \<in> set (rev s) \<Longrightarrow> x \<noteq> CHR ''/''" by auto
  then have "takeWhile (\<lambda>c. c \<noteq> CHR ''/'') (rev s @ [CHR ''/''])
               = rev s @ takeWhile (\<lambda>c. c \<noteq> CHR ''/'') [CHR ''/'']"
    by (rule takeWhile_append2)
  then show ?thesis by (simp add: after_last_slash_def)
qed

lemma split_slash_not_Nil: "split_slash acc s \<noteq> []"
  by (induction s arbitrary: acc) simp_all

lemma last_split_slash:
  "last (split_slash acc s) =
     (if CHR ''/'' \<in> set s then after_last_slash s else acc @ s)"
proof (induction s arbitrary: acc)
  case Nil
  show ?case by simp
next
  case (Cons c s)
  show ?case
  proof (cases "c = CHR ''/''")
    case True
    then have "last (split_slash acc (c # s)) = last (split_slash [] s)"
      by (simp add: split_slash_not_Nil)
    also have "\<dots> = (if CHR ''/'' \<in> set s then after_last_slash s else s)"
      by (simp add: Cons.IH)
    also have "\<dots> = after_last_slash (c # s)"
      using True by (simp add: after_last_slash_later after_last_slash_here)
    finally show ?thesis using True by simp
  next
    case False
    then have "last (split_slash acc (c # s)) = last (split_slash (acc @ [c]) s)"
      by simp
    also have "\<dots> = (if CHR ''/'' \<in> set s then after_last_slash s else acc @ c # s)"
      by (simp add: Cons.IH)
    finally show ?thesis using False by (simp add: after_last_slash_later)
  qed
qed

lemma split_pop_after_last_slash: "split_pop s = after_last_slash s"
  by (simp add: split_pop_def last_split_slash after_last_slash_none)

lemma fileExtension_of_tags_find:
  "fileExtension_of_tags dec tags =
     (case find (\<lambda>(n, v). dec n = ''Content-Type'') tags of
        None \<Rightarrow> ''bin''
      | Some (n, v) \<Rightarrow>
          if after_last_slash (dec v) = [] then ''bin'' else after_last_slash (dec v))"
  by (induction tags) (auto simp: split_pop_after_last_slash Let_def)

lemma try_possibleIds_resolved:
  "try_possibleIds w ids = (cs, Inr (d, ext)) \<Longrightarrow>
   \<exists>i tr. i \<in> set ids \<and> cs \<noteq> [] \<and> last cs = ArweaveDataGet i
      \<and> arweave_tx_get w i = Some tr \<and> tx_status tr = 200
      \<and> ext = fileExtension_of_tags (base64url_to_utf8 w)
                (case tx_tags tr of None \<Rightarrow> [] | Some ts \<Rightarrow> ts)"
proof (induction ids arbitrary: cs)
  case Nil
  then show ?case by simp
next
  case (Cons i ids)
  show ?case
  proof (cases "resolves w i")
    case None
    obtain cs' r where rest: "try_possibleIds w ids = (cs', r)"
      by (cases "try_possibleIds w ids")
    from None Cons.prems rest obtain pre where cs: "cs = pre @ cs'" and r: "r = Inr (d, ext)"
      by (auto simp: resolves_def after_def Let_def split: option.splits if_splits)
    from Cons.IH [of cs'] rest r obtain j tr where
      j: "j \<in> set ids" "cs' \<noteq> []" "last cs' = ArweaveDataGet j"
         "arweave_tx_get w j = Some tr" "tx_status tr = 200"
         "ext = fileExtension_of_tags (base64url_to_utf8 w)
                  (case tx_tags tr of None \<Rightarrow> [] | Some ts \<Rightarrow> ts)"
      by blast
    then show ?thesis using cs by (intro exI [of _ j] exI [of _ tr]) simp
  next
    case (Some a)
    with Cons.prems show ?thesis
      by (intro exI [of _ i])
         (auto simp: resolves_def Let_def split: option.splits if_splits)
  qed
qed

text \<open>
  C10. When the retrieval succeeds, the transaction it resolved (the one of its last
  download) decides the extension: \<open>bin\<close> when no tag has the decoded name
  \<open>Content-Type\<close>; otherwise the part of the first such tag's decoded value after its
  last \<open>/\<close>, and \<open>bin\<close> when that part is empty.
\<close>

theorem retrieveAssetFromArweave_extension:
  assumes "retrieveAssetFromArweave w transactionId = (cs, Inr (d, ext))"
  shows "\<exists>i tr. i \<in> set (possibleIds transactionId) \<and> last cs = ArweaveDataGet i
           \<and> arweave_tx_get w i = Some tr \<and> tx_status tr = 200
           \<and> ext = (case find (\<lambda>(n, v). base64url_to_utf8 w n = ''Content-Type'')
                            (case tx_tags tr of None \<Rightarrow> [] | Some ts \<Rightarrow> ts) of
                       None \<Rightarrow> ''bin''
                     | Some (n, v) \<Rightarrow>
                         if after_last_slash (base64url_to_utf8 w v) = [] then ''bin''
                         else after_last_slash (base64url_to_utf8 w v))"
  using try_possibleIds_resolved [OF assms [unfolded retrieveAssetFromArweave_def]]
  by (auto simp: fileExtension_of_tags_find)

text \<open>C10 in the test world, where the tag \<open>image/png\<close> gives \<open>png\<close>.\<close>

theorem retrieveAssetFromArweave_extension_witness:
  "retrieveAssetFromArweave (test_world 1 ''0xaaaaaaaaaaaaaaaaaaaaaaaaaaaaaaaaaaaaaaaa'')
       (hexlify test_locator) =
     ([ArweaveTxGet (toString_hex test_locator),
       ArweaveDataGet (toString_hex test_locator),
       ArweaveTxGet (to_base64url (toString_base64 test_locator)),
       ArweaveDataGet (to_base64url (toString_base64 test_locator))],
      Inr (test_asset, ''png''))
   \<and> (\<exists>tr. arweave_tx_get (test_world 1 ''0xaaaaaaaaaaaaaaaaaaaaaaaaaaaaaaaaaaaaaaaa'')
               (to_base64url (toString_base64 test_locator)) = Some tr
            \<and> ''png'' =
                (case find (\<lambda>(n, v). test_decode n = ''Content-Type'')
                        (case tx_tags tr of None \<Rightarrow> [] | Some ts \<Rightarrow> ts) of
                   None \<Rightarrow> ''bin''
                 | Some (n, v) \<Rightarrow>
                     if after_last_slash (test_decode v) = [] then ''bin''
                     else after_last_slash (test_decode v)))"
proof -
  let ?w = "test_world 1 ''0xaaaaaaaaaaaaaaaaaaaaaaaaaaaaaaaaaaaaaaaa''"
  have d: "base64url_to_utf8 ?w = test_decode" by (simp add: test_world_def)
  from retrieveAssetFromArweave_extension [OF test_retrieve [of 1 "''0xaaaaaaaaaaaaaaaaaaaaaaaaaaaaaaaaaaaaaaaa''"]]
  have "\<exists>tr. arweave_tx_get ?w (to_base64url (toString_base64 test_locator)) = Some tr
            \<and> ''png'' =
                (case find (\<lambda>(n, v). test_decode n = ''Content-Type'')
                        (case tx_tags tr of None \<Rightarrow> [] | Some ts \<Rightarrow> ts) of
                   None \<Rightarrow> ''bin''
                 | Some (n, v) \<Rightarrow>
                     if after_last_slash (test_decode v) = [] then ''bin''
                     else after_last_slash (test_decode v))"
    unfolding d by auto
  with test_retrieve [of 1 "''0xaaaaaaaaaaaaaaaaaaaaaaaaaaaaaaaaaaaaaaaa''"] show ?thesis
    by (rule conjI)
qed

end
